theory Spec2Isabelle
  imports Main "HOL-Library.Word" "HOL-Library.Code_Target_Nat"
begin

section \<open>The platform the loader runs on\<close>

text \<open>
  The loader in \<^verbatim>\<open>components/ice40/fpga_loader.c\<close> talks to the ESP-IDF drivers and to
  FreeRTOS. None of that is part of the component, so the model keeps it abstract: every
  call the loader makes into the SPI, GPIO and heap drivers and into the scheduler is
  appended to a log, in program order, and every answer a driver gives is read from a
  \<open>platform\<close> record. Answers that can differ from call to call (the result of a
  transmission, a sample of the CDONE pin, the tick counter) are functions of the number
  of the call. \<open>TickType_t\<close> is 32 bits wide and wraps. \<open>stat_size\<close> and \<open>fopen_bytes\<close>
  stand for the file system: the size \<open>stat\<close> reports for a path (\<open>None\<close> when it fails)
  and the bytes \<open>fopen\<close> gives access to (\<open>None\<close> when it fails).
\<close>

type_synonym byte = "8 word"

type_synonym TickType_t = "32 word"

datatype esp_err_t =
    ESP_OK
  | ESP_FAIL
  | ESP_ERR_NO_MEM
  | ESP_ERR_INVALID_ARG
  | ESP_ERR_NOT_FOUND
  | ESP_ERR_TIMEOUT
  | ESP_ERR_OTHER nat

datatype gpio_num_t =
    CONFIG_FPGA_CRESET_GPIO
  | CONFIG_FPGA_CDONE_GPIO
  | CONFIG_FPGA_CS_GPIO

datatype signal_idx = SIG_GPIO_OUT_IDX | FSPICS0_OUT_IDX

text \<open>
  \<open>esp_err_t\<close> with the codes the loader names; \<open>ESP_ERR_OTHER\<close> stands for any other code
  a driver may return. The three pins are the ones Kconfig assigns to CRESET_B, CDONE and
  SPI_SS_B.

  One entry of the log per driver call, and one per call of the source's read callback.
  \<open>spi_device_transmit bits tx\<close> carries the
  \<open>length\<close> field of the transaction (in bits) and the bytes of \<open>tx_buffer\<close> it covers;
  \<open>gpio_get_level pin level\<close> and \<open>source_read requested returned\<close> carry what the call
  returned, \<open>heap_caps_malloc size ok\<close> whether the block was handed out.
\<close>

datatype call =
    spi_bus_add_device
  | spi_bus_remove_device
  | spi_device_acquire_bus
  | spi_device_release_bus
  | xSemaphoreTake
  | spi_device_transmit nat "byte list"
  | xSemaphoreGive
  | gpio_set_level gpio_num_t int
  | gpio_get_level gpio_num_t int
  | gpio_matrix_out gpio_num_t signal_idx
  | vTaskDelay TickType_t
  | xTaskGetTickCount
  | heap_caps_malloc nat bool
  | heap_caps_free
  | source_read nat nat

text \<open>
  Build-time constants. \<open>CONFIG_FPGA_SPI_BUFFER_SIZE\<close> comes from Kconfig and
  \<open>pdMS_TO_TICKS\<close> from the FreeRTOS configuration; neither is fixed by the component,
  so both are parameters.
\<close>

record build_config =
  CONFIG_FPGA_SPI_BUFFER_SIZE :: nat
  pdMS_TO_TICKS :: "nat \<Rightarrow> TickType_t"

record platform =
  spi_bus_add_device_result :: esp_err_t
  spi_bus_add_device_handle :: nat
  spi_bus_remove_device_result :: esp_err_t
  spi_device_acquire_bus_result :: esp_err_t
  spi_device_transmit_result :: "nat \<Rightarrow> esp_err_t"
  heap_caps_malloc_succeeds :: bool
  heap_garbage :: "nat \<Rightarrow> byte"
  cdone_level :: "nat \<Rightarrow> int"
  tick_count :: "nat \<Rightarrow> TickType_t"
  flash :: "nat \<Rightarrow> byte"
  stat_size :: "string \<Rightarrow> nat option"
  fopen_bytes :: "string \<Rightarrow> byte list option"

text \<open>
  The state the loader threads through: the log, how many transmissions, CDONE samples
  and tick reads have happened so far (the index of the next answer), and the file-scope
  handle \<open>fpga_update_device\<close> (\<open>None\<close> is \<open>NULL\<close>).
\<close>

record world =
  calls :: "call list"
  n_transmit :: nat
  n_cdone :: nat
  n_tick :: nat
  fpga_update_device :: "nat option"

definition emit :: "call list \<Rightarrow> world \<Rightarrow> world" where
  "emit cs w = w\<lparr>calls := calls w @ cs\<rparr>"

section \<open>The loader\<close>

definition LOADER_BUFFER_SIZE :: "build_config \<Rightarrow> nat" where
  "LOADER_BUFFER_SIZE cfg = CONFIG_FPGA_SPI_BUFFER_SIZE cfg * 4"

text \<open>
  \<open>firmware_source_t\<close>: a length, a context and a read callback. The callback gets the
  buffer, the number of bytes wanted and the context; it returns the number of bytes it
  delivered, the buffer as it left it and the context as it left it.
\<close>

record 'c firmware_source_t =
  size_src :: nat
  ctx_src :: 'c
  read_src :: "byte list \<Rightarrow> nat \<Rightarrow> 'c \<Rightarrow> nat \<times> byte list \<times> 'c"

definition update_spi_device_add :: "platform \<Rightarrow> world \<Rightarrow> esp_err_t \<times> world" where
  "update_spi_device_add p w =
     (let ret = spi_bus_add_device_result p;
          w1 = emit [spi_bus_add_device] w
      in (ret, if ret = ESP_OK
               then w1\<lparr>fpga_update_device := Some (spi_bus_add_device_handle p)\<rparr>
               else w1))"

definition update_spi_device_remove :: "platform \<Rightarrow> world \<Rightarrow> esp_err_t \<times> world" where
  "update_spi_device_remove p w =
     (spi_bus_remove_device_result p,
      (emit [spi_bus_remove_device] w)\<lparr>fpga_update_device := None\<rparr>)"

text \<open>
  \<open>write_update_block\<close>: a block longer than the buffer is refused before anything is
  sent; otherwise one transaction of \<open>length * 8\<close> bits goes out between taking and
  giving \<open>master_spi_semaphore\<close>.
\<close>

definition write_update_block ::
  "build_config \<Rightarrow> platform \<Rightarrow> byte list \<Rightarrow> nat \<Rightarrow> world \<Rightarrow> esp_err_t \<times> world" where
  "write_update_block cfg p buffer len w =
     (if len > LOADER_BUFFER_SIZE cfg then (ESP_FAIL, w)
      else
        let w1 = emit [xSemaphoreTake] w;
            ret = spi_device_transmit_result p (n_transmit w1);
            w2 = (emit [spi_device_transmit (len * 8) (take len buffer)] w1)
                   \<lparr>n_transmit := n_transmit w1 + 1\<rparr>;
            w3 = emit [xSemaphoreGive] w2
        in (ret, w3))"

definition reset_pin_set :: "bool \<Rightarrow> world \<Rightarrow> world" where
  "reset_pin_set v w = emit [gpio_set_level CONFIG_FPGA_CRESET_GPIO (if v then 1 else 0)] w"

text \<open>
  The polling loop of \<open>cdone_pin_wait\<close>. Nothing in the code bounds the number of
  rounds: it ends when the pin shows the level or when the tick counter has passed
  \<open>timeout\<close>. A run that never ends is \<open>None\<close>.
\<close>

partial_function (option) cdone_poll ::
  "platform \<Rightarrow> bool \<Rightarrow> TickType_t \<Rightarrow> world \<Rightarrow> (esp_err_t \<times> world) option" where
  "cdone_poll p v timeout w =
     (let level = cdone_level p (n_cdone w);
          w1 = (emit [gpio_get_level CONFIG_FPGA_CDONE_GPIO level] w)
                 \<lparr>n_cdone := n_cdone w + 1\<rparr>
      in if level \<noteq> (if v then 1 else 0) then
           let now = tick_count p (n_tick w1);
               w2 = (emit [xTaskGetTickCount] w1)\<lparr>n_tick := n_tick w1 + 1\<rparr>
           in if now > timeout then Some (ESP_ERR_TIMEOUT, w2)
              else cdone_poll p v timeout (emit [vTaskDelay 1] w2)
         else Some (ESP_OK, w1))"

definition cdone_pin_wait ::
  "build_config \<Rightarrow> platform \<Rightarrow> bool \<Rightarrow> nat \<Rightarrow> world \<Rightarrow> (esp_err_t \<times> world) option" where
  "cdone_pin_wait cfg p v timeout_ms w =
     (let now = tick_count p (n_tick w);
          w1 = (emit [xTaskGetTickCount] w)\<lparr>n_tick := n_tick w + 1\<rparr>;
          timeout = now + pdMS_TO_TICKS cfg timeout_ms
      in cdone_poll p v timeout w1)"

text \<open>
  The streaming loop of \<open>fpga_loader_load\<close> (Step 7), with the locals it changes:
  \<open>remaining\<close>, the buffer, the source's context and \<open>ret\<close>. \<open>break\<close> is the early
  \<open>Some\<close>. The sizes are \<open>size_t\<close> in the code; \<open>chunk\<close> never exceeds \<open>remaining\<close>, so
  the subtraction does not wrap and \<open>nat\<close> is exact.
\<close>

partial_function (option) stream_loop ::
  "build_config \<Rightarrow> platform \<Rightarrow> (byte list \<Rightarrow> nat \<Rightarrow> 'c \<Rightarrow> nat \<times> byte list \<times> 'c) \<Rightarrow>
   nat \<Rightarrow> byte list \<Rightarrow> 'c \<Rightarrow> esp_err_t \<Rightarrow> world \<Rightarrow>
   (esp_err_t \<times> byte list \<times> 'c \<times> world) option" where
  "stream_loop cfg p rd remaining buffer ctx ret w =
     (if remaining > 0 then
        let chunk = (if remaining > LOADER_BUFFER_SIZE cfg
                     then LOADER_BUFFER_SIZE cfg else remaining);
            got = rd buffer chunk ctx;
            n = fst got; buffer1 = fst (snd got); ctx1 = snd (snd got);
            w1 = emit [source_read chunk n] w
        in if n \<noteq> chunk then Some (ESP_FAIL, buffer1, ctx1, w1)
           else
             let sent = write_update_block cfg p buffer1 chunk w1
             in if fst sent \<noteq> ESP_OK then Some (fst sent, buffer1, ctx1, snd sent)
                else stream_loop cfg p rd (remaining - chunk) buffer1 ctx1 (fst sent) (snd sent)
      else Some (ret, buffer, ctx, w))"

definition cleanup_device :: "platform \<Rightarrow> esp_err_t \<Rightarrow> world \<Rightarrow> esp_err_t \<times> world" where
  "cleanup_device p ret w = (ret, snd (update_spi_device_remove p w))"

definition cleanup_bus :: "platform \<Rightarrow> esp_err_t \<Rightarrow> world \<Rightarrow> esp_err_t \<times> world" where
  "cleanup_bus p ret w = cleanup_device p ret (emit [spi_device_release_bus] w)"

text \<open>
  \<open>fpga_loader_load\<close>. The three ways out are \<open>return\<close> (registration failed),
  \<open>cleanup_device\<close> and \<open>cleanup_bus\<close>. The value \<open>ret\<close> has when the streaming loop is left
  is not read again: Step 8 assigns \<open>ret\<close> from \<open>cdone_pin_wait\<close>, and that is what is
  returned. The results of the two padding blocks are dropped, as in the code.
\<close>

definition fpga_loader_load ::
  "build_config \<Rightarrow> platform \<Rightarrow> 'c firmware_source_t \<Rightarrow> world \<Rightarrow> (esp_err_t \<times> world) option" where
  "fpga_loader_load cfg p source w0 =
     (let added = update_spi_device_add p w0
      in if fst added \<noteq> ESP_OK then Some added
         else
           let ret = spi_device_acquire_bus_result p;
               w2 = emit [spi_device_acquire_bus] (snd added)
           in if ret \<noteq> ESP_OK then Some (cleanup_device p ret w2)
              else
                let w3 = reset_pin_set False w2;
                    w4 = emit [gpio_set_level CONFIG_FPGA_CS_GPIO 0,
                               gpio_matrix_out CONFIG_FPGA_CS_GPIO SIG_GPIO_OUT_IDX,
                               vTaskDelay 1] w3;
                    w5 = reset_pin_set True w4;
                    w6 = emit [vTaskDelay (pdMS_TO_TICKS cfg 2),
                               gpio_set_level CONFIG_FPGA_CS_GPIO 1] w5;
                    dummy = write_update_block cfg p [0] 1 w6
                in if fst dummy \<noteq> ESP_OK then Some (cleanup_bus p (fst dummy) (snd dummy))
                   else
                     let w8 = emit [gpio_set_level CONFIG_FPGA_CS_GPIO 0] (snd dummy);
                         ok = heap_caps_malloc_succeeds p;
                         w9 = emit [heap_caps_malloc (LOADER_BUFFER_SIZE cfg) ok] w8
                     in if \<not> ok then Some (cleanup_bus p ESP_ERR_NO_MEM w9)
                        else
                          (case stream_loop cfg p (read_src source) (size_src source)
                                  (map (heap_garbage p) [0..<LOADER_BUFFER_SIZE cfg])
                                  (ctx_src source) (fst dummy) w9 of
                             None \<Rightarrow> None
                           | Some (_, _, _, w10) \<Rightarrow>
                               (let w11 = emit [gpio_set_level CONFIG_FPGA_CS_GPIO 1] w10;
                                    zeros = replicate (LOADER_BUFFER_SIZE cfg) 0;
                                    w12 = snd (write_update_block cfg p zeros 13 w11)
                                in (case cdone_pin_wait cfg p True 100 w12 of
                                      None \<Rightarrow> None
                                    | Some (ret, w13) \<Rightarrow>
                                        (let w14 = snd (write_update_block cfg p zeros 7 w13);
                                             w15 = emit [gpio_set_level CONFIG_FPGA_CS_GPIO 1,
                                                         gpio_matrix_out CONFIG_FPGA_CS_GPIO FSPICS0_OUT_IDX,
                                                         heap_caps_free] w14
                                         in Some (cleanup_bus p ret w15))))))"

declare cdone_poll.simps [code]

declare stream_loop.simps [code]

section \<open>The ROM source\<close>

text \<open>
  \<open>fpga_bin_t\<close> holds two addresses into the firmware image; \<open>flash\<close> of the platform is
  what stands at each address. \<open>rom_ctx_t\<close> keeps the start address, the length and the
  cursor. The sum \<open>pos + size\<close> is computed in \<open>size_t\<close>, 32 bits wide on the target, so
  it wraps. \<open>memcpy\<close> overwrites the first \<open>size\<close> bytes of the buffer with the bytes at
  \<open>data + pos\<close>.
\<close>

record fpga_bin_t =
  bin_start :: nat
  bin_end :: nat

record rom_ctx_t =
  rom_data :: nat
  rom_size :: nat
  rom_pos :: nat

definition rom_read ::
  "(nat \<Rightarrow> byte) \<Rightarrow> byte list \<Rightarrow> nat \<Rightarrow> rom_ctx_t \<Rightarrow> nat \<times> byte list \<times> rom_ctx_t" where
  "rom_read mem buffer sz rom =
     (if (rom_pos rom + sz) mod 2 ^ 32 > rom_size rom then (0, buffer, rom)
      else (sz,
            map mem [rom_data rom + rom_pos rom ..< rom_data rom + rom_pos rom + sz]
              @ drop sz buffer,
            rom\<lparr>rom_pos := (rom_pos rom + sz) mod 2 ^ 32\<rparr>))"

definition fpga_loader_load_from_rom ::
  "build_config \<Rightarrow> platform \<Rightarrow> fpga_bin_t option \<Rightarrow> world \<Rightarrow> (esp_err_t \<times> world) option" where
  "fpga_loader_load_from_rom cfg p fpga_bin w =
     (case fpga_bin of
        None \<Rightarrow> Some (ESP_ERR_INVALID_ARG, w)
      | Some bin \<Rightarrow>
          if bin_end bin \<le> bin_start bin then Some (ESP_ERR_INVALID_ARG, w)
          else
            let ctx = \<lparr>rom_data = bin_start bin,
                       rom_size = bin_end bin - bin_start bin,
                       rom_pos = 0\<rparr>;
                source = \<lparr>size_src = rom_size ctx, ctx_src = ctx,
                          read_src = rom_read (flash p)\<rparr>
            in fpga_loader_load cfg p source w)"

section \<open>The file source\<close>

text \<open>
  \<open>file_read\<close> is \<open>fread\<close> on the open file: it delivers what is left of the file, at most
  the number of bytes asked for. The context is the unread rest of the file. The entry
  point takes the length from \<open>stat\<close> and the bytes from \<open>fopen\<close>; it has no check of its
  own on the length.
\<close>

definition file_read :: "byte list \<Rightarrow> nat \<Rightarrow> byte list \<Rightarrow> nat \<times> byte list \<times> byte list" where
  "file_read buffer sz fp =
     (let n = min sz (length fp) in (n, take n fp @ drop n buffer, drop n fp))"

definition fpga_loader_load_from_file ::
  "build_config \<Rightarrow> platform \<Rightarrow> string \<Rightarrow> world \<Rightarrow> (esp_err_t \<times> world) option" where
  "fpga_loader_load_from_file cfg p filename w =
     (case stat_size p filename of
        None \<Rightarrow> Some (ESP_ERR_NOT_FOUND, w)
      | Some st_size \<Rightarrow>
          (case fopen_bytes p filename of
             None \<Rightarrow> Some (ESP_FAIL, w)
           | Some fp \<Rightarrow>
               fpga_loader_load cfg p
                 \<lparr>size_src = st_size, ctx_src = fp, read_src = file_read\<rparr> w))"

section \<open>Reading the log\<close>

text \<open>The calls a run added to the log it started with.\<close>

definition new_calls :: "world \<Rightarrow> world \<Rightarrow> call list" where
  "new_calls w0 w = drop (length (calls w0)) (calls w)"

text \<open>The transmissions of a log, in order: bit length and bytes.\<close>

fun transmissions :: "call list \<Rightarrow> (nat \<times> byte list) list" where
  "transmissions [] = []"
| "transmissions (spi_device_transmit bits tx # cs) = (bits, tx) # transmissions cs"
| "transmissions (_ # cs) = transmissions cs"

definition tx_lengths :: "call list \<Rightarrow> nat list" where
  "tx_lengths cs = map (\<lambda>t. fst t div 8) (transmissions cs)"

text \<open>
  What follows the first read that did not deliver the requested number of bytes
  (\<open>None\<close> when every read delivered it).
\<close>

fun after_read_mismatch :: "call list \<Rightarrow> call list option" where
  "after_read_mismatch [] = None"
| "after_read_mismatch (source_read requested returned # cs) =
     (if returned \<noteq> requested then Some cs else after_read_mismatch cs)"
| "after_read_mismatch (_ # cs) = after_read_mismatch cs"

text \<open>The calls the streaming loop makes, and the calls the polling loop makes.\<close>

fun is_stream_call :: "call \<Rightarrow> bool" where
  "is_stream_call (source_read _ _) = True"
| "is_stream_call xSemaphoreTake = True"
| "is_stream_call (spi_device_transmit _ _) = True"
| "is_stream_call xSemaphoreGive = True"
| "is_stream_call _ = False"

fun is_poll_call :: "call \<Rightarrow> bool" where
  "is_poll_call (gpio_get_level _ _) = True"
| "is_poll_call xTaskGetTickCount = True"
| "is_poll_call (vTaskDelay _) = True"
| "is_poll_call _ = False"

text \<open>
  The run gets as far as the Completion phase exactly when the device is registered, the
  bus acquired, the dummy byte accepted by \<open>write_update_block\<close> (the buffer has room for
  it) and sent, and the buffer allocated: the streaming loop has no way out but into
  Step 8.
\<close>

definition reaches_completion :: "build_config \<Rightarrow> platform \<Rightarrow> world \<Rightarrow> bool" where
  "reaches_completion cfg p w0 =
     (spi_bus_add_device_result p = ESP_OK \<and>
      spi_device_acquire_bus_result p = ESP_OK \<and>
      1 \<le> LOADER_BUFFER_SIZE cfg \<and>
      spi_device_transmit_result p (n_transmit w0) = ESP_OK \<and>
      heap_caps_malloc_succeeds p)"

text \<open>The log from registration up to the allocation of the buffer, all of it succeeding.\<close>

definition prologue :: "build_config \<Rightarrow> call list" where
  "prologue cfg =
     [spi_bus_add_device, spi_device_acquire_bus,
      gpio_set_level CONFIG_FPGA_CRESET_GPIO 0,
      gpio_set_level CONFIG_FPGA_CS_GPIO 0,
      gpio_matrix_out CONFIG_FPGA_CS_GPIO SIG_GPIO_OUT_IDX,
      vTaskDelay 1,
      gpio_set_level CONFIG_FPGA_CRESET_GPIO 1,
      vTaskDelay (pdMS_TO_TICKS cfg 2),
      gpio_set_level CONFIG_FPGA_CS_GPIO 1,
      xSemaphoreTake, spi_device_transmit 8 [0], xSemaphoreGive,
      gpio_set_level CONFIG_FPGA_CS_GPIO 0,
      heap_caps_malloc (LOADER_BUFFER_SIZE cfg) True]"

text \<open>What \<open>write_update_block\<close> logs for \<open>len\<close> zero bytes: nothing when it refuses the block.\<close>

definition padding :: "build_config \<Rightarrow> nat \<Rightarrow> call list" where
  "padding cfg len =
     (if len > LOADER_BUFFER_SIZE cfg then []
      else [xSemaphoreTake, spi_device_transmit (len * 8) (replicate len 0), xSemaphoreGive])"

text \<open>Step 10 and the two cleanup labels.\<close>

definition hand_off :: "call list" where
  "hand_off =
     [gpio_set_level CONFIG_FPGA_CS_GPIO 1,
      gpio_matrix_out CONFIG_FPGA_CS_GPIO FSPICS0_OUT_IDX,
      heap_caps_free,
      spi_device_release_bus,
      spi_bus_remove_device]"

section \<open>Concrete inputs\<close>

text \<open>
  A freshly booted system, a build with a 16-byte buffer and a 1 kHz tick, and a platform
  on which every driver call succeeds, CDONE is high from the first sample and the tick
  counter advances by one per read. The byte at flash address \<open>a\<close> is \<open>a mod 256\<close>.
\<close>

definition boot :: world where
  "boot = \<lparr>calls = [], n_transmit = 0, n_cdone = 0, n_tick = 0, fpga_update_device = None\<rparr>"

definition cfg16 :: build_config where
  "cfg16 = \<lparr>CONFIG_FPGA_SPI_BUFFER_SIZE = 4, pdMS_TO_TICKS = (\<lambda>ms. of_nat ms)\<rparr>"

definition healthy :: platform where
  "healthy = \<lparr>spi_bus_add_device_result = ESP_OK,
              spi_bus_add_device_handle = 1,
              spi_bus_remove_device_result = ESP_OK,
              spi_device_acquire_bus_result = ESP_OK,
              spi_device_transmit_result = (\<lambda>i. ESP_OK),
              heap_caps_malloc_succeeds = True,
              heap_garbage = (\<lambda>i. 255),
              cdone_level = (\<lambda>i. 1),
              tick_count = (\<lambda>i. of_nat i),
              flash = (\<lambda>a. of_nat a),
              stat_size = (\<lambda>name. None),
              fopen_bytes = (\<lambda>name. None)\<rparr>"

text \<open>A source that announces 20 bytes and holds 18: its second read comes back short.\<close>

definition truncated :: "byte list firmware_source_t" where
  "truncated = \<lparr>size_src = 20, ctx_src = map of_nat [0..<18], read_src = file_read\<rparr>"

text \<open>A 20-byte image in ROM at address 4096.\<close>

definition image20 :: "rom_ctx_t firmware_source_t" where
  "image20 = \<lparr>size_src = 20,
              ctx_src = \<lparr>rom_data = 4096, rom_size = 20, rom_pos = 0\<rparr>,
              read_src = rom_read (flash healthy)\<rparr>"

text \<open>A platform whose CDONE pin stays low, with 60 ticks between two reads of the clock.\<close>

definition cdone_low :: platform where
  "cdone_low = healthy\<lparr>cdone_level := (\<lambda>i. 0), tick_count := (\<lambda>i. of_nat (60 * i))\<rparr>"

text \<open>Transmission results that are fine for the first three transmissions and fail after.\<close>

definition pads_fail :: "nat \<Rightarrow> esp_err_t" where
  "pads_fail i = (if i < 3 then ESP_OK else ESP_FAIL)"

text \<open>The logs of three runs from \<open>boot\<close> with the 16-byte buffer, written out.\<close>

definition truncated_rest :: "call list" where
  "truncated_rest =
     [gpio_set_level CONFIG_FPGA_CS_GPIO 1,
      xSemaphoreTake, spi_device_transmit 104 (replicate 13 0), xSemaphoreGive,
      xTaskGetTickCount, gpio_get_level CONFIG_FPGA_CDONE_GPIO 1,
      xSemaphoreTake, spi_device_transmit 56 (replicate 7 0), xSemaphoreGive,
      gpio_set_level CONFIG_FPGA_CS_GPIO 1,
      gpio_matrix_out CONFIG_FPGA_CS_GPIO FSPICS0_OUT_IDX,
      heap_caps_free, spi_device_release_bus, spi_bus_remove_device]"

definition truncated_log :: "call list" where
  "truncated_log =
     [spi_bus_add_device, spi_device_acquire_bus,
      gpio_set_level CONFIG_FPGA_CRESET_GPIO 0,
      gpio_set_level CONFIG_FPGA_CS_GPIO 0,
      gpio_matrix_out CONFIG_FPGA_CS_GPIO SIG_GPIO_OUT_IDX,
      vTaskDelay 1,
      gpio_set_level CONFIG_FPGA_CRESET_GPIO 1,
      vTaskDelay 2,
      gpio_set_level CONFIG_FPGA_CS_GPIO 1,
      xSemaphoreTake, spi_device_transmit 8 [0], xSemaphoreGive,
      gpio_set_level CONFIG_FPGA_CS_GPIO 0,
      heap_caps_malloc 16 True,
      source_read 16 16,
      xSemaphoreTake,
      spi_device_transmit 128 [0, 1, 2, 3, 4, 5, 6, 7, 8, 9, 10, 11, 12, 13, 14, 15],
      xSemaphoreGive,
      source_read 4 2] @ truncated_rest"

definition truncated_end :: world where
  "truncated_end = \<lparr>calls = truncated_log, n_transmit = 4, n_cdone = 1, n_tick = 1,
                     fpga_update_device = None\<rparr>"

definition image20_streamed :: "call list" where
  "image20_streamed =
     [source_read 16 16,
      xSemaphoreTake,
      spi_device_transmit 128 [0, 1, 2, 3, 4, 5, 6, 7, 8, 9, 10, 11, 12, 13, 14, 15],
      xSemaphoreGive,
      source_read 4 4,
      xSemaphoreTake, spi_device_transmit 32 [16, 17, 18, 19], xSemaphoreGive]"

definition image20_end :: world where
  "image20_end =
     \<lparr>calls = prologue cfg16 @ image20_streamed @
              [gpio_set_level CONFIG_FPGA_CS_GPIO 1,
               xSemaphoreTake, spi_device_transmit 104 (replicate 13 0), xSemaphoreGive,
               xTaskGetTickCount, gpio_get_level CONFIG_FPGA_CDONE_GPIO 1,
               xSemaphoreTake, spi_device_transmit 56 (replicate 7 0), xSemaphoreGive] @
              hand_off,
      n_transmit = 5, n_cdone = 1, n_tick = 1, fpga_update_device = None\<rparr>"

definition timeout_end :: world where
  "timeout_end =
     \<lparr>calls = prologue cfg16 @ image20_streamed @
              [gpio_set_level CONFIG_FPGA_CS_GPIO 1,
               xSemaphoreTake, spi_device_transmit 104 (replicate 13 0), xSemaphoreGive,
               xTaskGetTickCount,
               gpio_get_level CONFIG_FPGA_CDONE_GPIO 0, xTaskGetTickCount, vTaskDelay 1,
               gpio_get_level CONFIG_FPGA_CDONE_GPIO 0, xTaskGetTickCount,
               xSemaphoreTake, spi_device_transmit 56 (replicate 7 0), xSemaphoreGive] @
              hand_off,
      n_transmit = 5, n_cdone = 2, n_tick = 3, fpga_update_device = None\<rparr>"

text \<open>Builds with a buffer of 4 and of 8 bytes, and a 4-byte image in ROM.\<close>

definition cfg4 :: build_config where
  "cfg4 = \<lparr>CONFIG_FPGA_SPI_BUFFER_SIZE = 1, pdMS_TO_TICKS = (\<lambda>ms. of_nat ms)\<rparr>"

definition cfg8 :: build_config where
  "cfg8 = \<lparr>CONFIG_FPGA_SPI_BUFFER_SIZE = 2, pdMS_TO_TICKS = (\<lambda>ms. of_nat ms)\<rparr>"

definition image4 :: "rom_ctx_t firmware_source_t" where
  "image4 = \<lparr>size_src = 4,
             ctx_src = \<lparr>rom_data = 4096, rom_size = 4, rom_pos = 0\<rparr>,
             read_src = rom_read (flash healthy)\<rparr>"

text \<open>A file system in which every path is an empty file.\<close>

definition with_empty_file :: platform where
  "with_empty_file = healthy\<lparr>stat_size := (\<lambda>name. Some 0), fopen_bytes := (\<lambda>name. Some [])\<rparr>"

text \<open>
  A platform that has been up for \<open>2 ^ 32 - 101\<close> ticks when the loader is called, with
  CDONE low: the deadline of the poll is \<open>0xFFFFFFFF\<close>.
\<close>

definition late_boot :: platform where
  "late_boot = healthy\<lparr>cdone_level := (\<lambda>i. 0), tick_count := (\<lambda>i. 4294967195 + of_nat i)\<rparr>"

text \<open>The state after streaming the 20-byte image from \<open>boot\<close>, and the ends of three more runs.\<close>

definition streamed20_end :: world where
  "streamed20_end = \<lparr>calls = image20_streamed, n_transmit = 2, n_cdone = 0, n_tick = 0,
                      fpga_update_device = None\<rparr>"

definition starved_end :: world where
  "starved_end =
     \<lparr>calls = prologue cfg4 @
              [source_read 4 4,
               xSemaphoreTake, spi_device_transmit 32 [0, 1, 2, 3], xSemaphoreGive,
               gpio_set_level CONFIG_FPGA_CS_GPIO 1,
               xTaskGetTickCount,
               gpio_get_level CONFIG_FPGA_CDONE_GPIO 0, xTaskGetTickCount, vTaskDelay 1,
               gpio_get_level CONFIG_FPGA_CDONE_GPIO 0, xTaskGetTickCount] @
              hand_off,
      n_transmit = 2, n_cdone = 2, n_tick = 3, fpga_update_device = None\<rparr>"

definition small_buffer_end :: world where
  "small_buffer_end =
     \<lparr>calls = prologue cfg8 @
              [source_read 4 4,
               xSemaphoreTake, spi_device_transmit 32 [0, 1, 2, 3], xSemaphoreGive,
               gpio_set_level CONFIG_FPGA_CS_GPIO 1,
               xTaskGetTickCount, gpio_get_level CONFIG_FPGA_CDONE_GPIO 1,
               xSemaphoreTake, spi_device_transmit 56 (replicate 7 0), xSemaphoreGive] @
              hand_off,
      n_transmit = 3, n_cdone = 1, n_tick = 1, fpga_update_device = None\<rparr>"

definition empty_file_end :: world where
  "empty_file_end =
     \<lparr>calls = prologue cfg16 @
              [gpio_set_level CONFIG_FPGA_CS_GPIO 1,
               xSemaphoreTake, spi_device_transmit 104 (replicate 13 0), xSemaphoreGive,
               xTaskGetTickCount, gpio_get_level CONFIG_FPGA_CDONE_GPIO 1,
               xSemaphoreTake, spi_device_transmit 56 (replicate 7 0), xSemaphoreGive] @
              hand_off,
      n_transmit = 3, n_cdone = 1, n_tick = 1, fpga_update_device = None\<rparr>"

definition empty_bin :: fpga_bin_t where
  "empty_bin = \<lparr>bin_start = 4096, bin_end = 4096\<rparr>"

definition rom_at_4 :: rom_ctx_t where
  "rom_at_4 = \<lparr>rom_data = 0, rom_size = 10, rom_pos = 4\<rparr>"

section \<open>Basic facts\<close>

lemma emit_calls [simp]: "calls (emit cs w) = calls w @ cs"
  by (simp add: emit_def)

lemma emit_simps [simp]:
  "n_transmit (emit cs w) = n_transmit w"
  "n_cdone (emit cs w) = n_cdone w"
  "n_tick (emit cs w) = n_tick w"
  "fpga_update_device (emit cs w) = fpga_update_device w"
  by (simp_all add: emit_def)

lemma wub_refused:
  "LOADER_BUFFER_SIZE cfg < len \<Longrightarrow> write_update_block cfg p b len w = (ESP_FAIL, w)"
  by (simp add: write_update_block_def)

lemma wub_sent:
  assumes "len \<le> LOADER_BUFFER_SIZE cfg"
  shows "fst (write_update_block cfg p b len w) = spi_device_transmit_result p (n_transmit w)"
    and "calls (snd (write_update_block cfg p b len w)) =
           calls w @ [xSemaphoreTake, spi_device_transmit (len * 8) (take len b), xSemaphoreGive]"
    and "n_transmit (snd (write_update_block cfg p b len w)) = n_transmit w + 1"
  using assms by (simp_all add: write_update_block_def Let_def)

lemma wub_keeps [simp]:
  "n_cdone (snd (write_update_block cfg p b len w)) = n_cdone w"
  "n_tick (snd (write_update_block cfg p b len w)) = n_tick w"
  "fpga_update_device (snd (write_update_block cfg p b len w)) = fpga_update_device w"
  by (simp_all add: write_update_block_def Let_def)


lemma transmissions_append [simp]:
  "transmissions (xs @ ys) = transmissions xs @ transmissions ys"
  by (induction xs rule: transmissions.induct) simp_all

lemma tx_lengths_append [simp]: "tx_lengths (xs @ ys) = tx_lengths xs @ tx_lengths ys"
  by (simp add: tx_lengths_def)

lemma after_read_mismatch_append:
  "after_read_mismatch (xs @ ys) =
     (case after_read_mismatch xs of Some rest \<Rightarrow> Some (rest @ ys)
      | None \<Rightarrow> after_read_mismatch ys)"
  by (induction xs rule: after_read_mismatch.induct) simp_all

lemma stream_loop_done:
  "stream_loop cfg p rd 0 buffer ctx ret w = Some (ret, buffer, ctx, w)"
  by (subst stream_loop.simps) simp

lemma stream_loop_mismatch:
  assumes "0 < remaining"
    and "chunk = (if remaining > LOADER_BUFFER_SIZE cfg then LOADER_BUFFER_SIZE cfg else remaining)"
    and "fst (rd buffer chunk ctx) \<noteq> chunk"
  shows "stream_loop cfg p rd remaining buffer ctx ret w =
           Some (ESP_FAIL, fst (snd (rd buffer chunk ctx)), snd (snd (rd buffer chunk ctx)),
                 emit [source_read chunk (fst (rd buffer chunk ctx))] w)"
  using assms by (subst stream_loop.simps) (simp add: Let_def)

lemma stream_loop_write_error:
  assumes "0 < remaining"
    and "chunk = (if remaining > LOADER_BUFFER_SIZE cfg then LOADER_BUFFER_SIZE cfg else remaining)"
    and "fst (rd buffer chunk ctx) = chunk"
    and "sent = write_update_block cfg p (fst (snd (rd buffer chunk ctx))) chunk
                  (emit [source_read chunk chunk] w)"
    and "fst sent \<noteq> ESP_OK"
  shows "stream_loop cfg p rd remaining buffer ctx ret w =
           Some (fst sent, fst (snd (rd buffer chunk ctx)), snd (snd (rd buffer chunk ctx)),
                 snd sent)"
  using assms by (subst stream_loop.simps) (simp add: Let_def)

lemma stream_loop_next:
  assumes "0 < remaining"
    and "chunk = (if remaining > LOADER_BUFFER_SIZE cfg then LOADER_BUFFER_SIZE cfg else remaining)"
    and "fst (rd buffer chunk ctx) = chunk"
    and "sent = write_update_block cfg p (fst (snd (rd buffer chunk ctx))) chunk
                  (emit [source_read chunk chunk] w)"
    and "fst sent = ESP_OK"
  shows "stream_loop cfg p rd remaining buffer ctx ret w =
           stream_loop cfg p rd (remaining - chunk) (fst (snd (rd buffer chunk ctx)))
             (snd (snd (rd buffer chunk ctx))) ESP_OK (snd sent)"
  using assms by (subst stream_loop.simps) (simp add: Let_def)

lemma stream_loop_total:
  assumes lbs: "1 \<le> LOADER_BUFFER_SIZE cfg"
  shows "\<exists>r b c w'. stream_loop cfg p rd remaining buffer ctx ret w = Some (r, b, c, w') \<and>
           (\<exists>cs. calls w' = calls w @ cs \<and> list_all is_stream_call cs \<and>
                 (after_read_mismatch cs = None \<or> after_read_mismatch cs = Some []) \<and>
                 n_transmit w' = n_transmit w + length (transmissions cs)) \<and>
           n_cdone w' = n_cdone w \<and> n_tick w' = n_tick w \<and>
           fpga_update_device w' = fpga_update_device w \<and> n_transmit w \<le> n_transmit w'"
proof (induction remaining arbitrary: buffer ctx ret w rule: less_induct)
  case (less remaining)
  show ?case
  proof (cases "remaining = 0")
    case True
    then show ?thesis by (simp add: stream_loop_done)
  next
    case False
    define chunk where
      "chunk = (if remaining > LOADER_BUFFER_SIZE cfg then LOADER_BUFFER_SIZE cfg else remaining)"
    define got where "got = rd buffer chunk ctx"
    define sent where
      "sent = write_update_block cfg p (fst (snd got)) chunk (emit [source_read chunk chunk] w)"
    from False lbs have chunk: "0 < chunk" "chunk \<le> remaining" "chunk \<le> LOADER_BUFFER_SIZE cfg"
      by (simp_all add: chunk_def)
    have sent_calls: "calls (snd sent) = calls w @
        [source_read chunk chunk, xSemaphoreTake,
         spi_device_transmit (chunk * 8) (take chunk (fst (snd got))), xSemaphoreGive]"
      and sent_n: "n_transmit (snd sent) = n_transmit w + 1"
      and sent_keeps: "n_cdone (snd sent) = n_cdone w" "n_tick (snd sent) = n_tick w"
        "fpga_update_device (snd sent) = fpga_update_device w"
      using chunk by (simp_all add: sent_def wub_sent)
    show ?thesis
    proof (cases "fst got = chunk")
      case mismatch: False
      then have "stream_loop cfg p rd remaining buffer ctx ret w =
          Some (ESP_FAIL, fst (snd got), snd (snd got), emit [source_read chunk (fst got)] w)"
        using False by (simp add: stream_loop_mismatch [OF _ chunk_def] got_def)
      with mismatch show ?thesis by simp
    next
      case True
      show ?thesis
      proof (cases "fst sent = ESP_OK")
        case werr: False
        have "stream_loop cfg p rd remaining buffer ctx ret w =
            Some (fst sent, fst (snd got), snd (snd got), snd sent)"
          using False True werr
          by (simp add: stream_loop_write_error [OF _ chunk_def _ refl] got_def sent_def)
        then show ?thesis using sent_calls sent_n sent_keeps by simp
      next
        case ok: True
        have eq: "stream_loop cfg p rd remaining buffer ctx ret w =
            stream_loop cfg p rd (remaining - chunk) (fst (snd got)) (snd (snd got)) ESP_OK
              (snd sent)"
          using False True ok
          by (simp add: stream_loop_next [OF _ chunk_def _ refl] got_def sent_def)
        from chunk have "remaining - chunk < remaining" by simp
        from less.IH [OF this, of "fst (snd got)" "snd (snd got)" ESP_OK "snd sent"]
        obtain r b c w' cs where
          run: "stream_loop cfg p rd (remaining - chunk) (fst (snd got)) (snd (snd got)) ESP_OK
                  (snd sent) = Some (r, b, c, w')"
          and cs: "calls w' = calls (snd sent) @ cs" "list_all is_stream_call cs"
            "after_read_mismatch cs = None \<or> after_read_mismatch cs = Some []"
            "n_transmit w' = n_transmit (snd sent) + length (transmissions cs)"
          and keeps: "n_cdone w' = n_cdone (snd sent)" "n_tick w' = n_tick (snd sent)"
            "fpga_update_device w' = fpga_update_device (snd sent)"
            "n_transmit (snd sent) \<le> n_transmit w'"
          by blast
        let ?cs = "[source_read chunk chunk, xSemaphoreTake,
           spi_device_transmit (chunk * 8) (take chunk (fst (snd got))), xSemaphoreGive] @ cs"
        have "calls w' = calls w @ ?cs" using cs(1) sent_calls by simp
        moreover have "list_all is_stream_call ?cs" using cs(2) by simp
        moreover have "after_read_mismatch ?cs = None \<or> after_read_mismatch ?cs = Some []"
          using cs(3) by simp
        moreover have "n_transmit w' = n_transmit w + length (transmissions ?cs)"
          using cs(4) sent_n by simp
        ultimately show ?thesis
          using eq run keeps sent_n sent_keeps by (intro exI conjI) (assumption | simp)+
      qed
    qed
  qed
qed

section \<open>Streaming\<close>

lemma ceil_div_step:
  fixes r c :: nat
  assumes "0 < c" "0 < r"
  shows "(r + c - 1) div c = Suc ((r - 1) div c)"
proof -
  have "r + c - 1 = (r - 1) + c" using assms by simp
  moreover have "((r - 1) + c) div c = Suc ((r - 1) div c)"
    using assms(1) by (subst div_add_self2) simp_all
  ultimately show ?thesis by (simp only:)
qed

text \<open>
  The loop returns, whatever the source and the driver answer, and extends the log. A run
  without a short read and without a failed transmission yields \<open>ESP_OK\<close> and cuts the
  \<open>remaining\<close> bytes into full chunks and a last, shorter one.
\<close>

lemma stream_loop_run:
  assumes lbs: "1 \<le> LOADER_BUFFER_SIZE cfg"
  shows "\<exists>r b c w' cs.
           stream_loop cfg p rd remaining buffer ctx ESP_OK w = Some (r, b, c, w') \<and>
           calls w' = calls w @ cs \<and>
           (after_read_mismatch cs = None \<and>
            (\<forall>i. n_transmit w \<le> i \<and> i < n_transmit w' \<longrightarrow>
                   spi_device_transmit_result p i = ESP_OK) \<longrightarrow>
              r = ESP_OK \<and>
              length (tx_lengths cs) =
                (remaining + LOADER_BUFFER_SIZE cfg - 1) div LOADER_BUFFER_SIZE cfg \<and>
              (\<forall>n \<in> set (tx_lengths cs). n \<le> LOADER_BUFFER_SIZE cfg) \<and>
              sum_list (tx_lengths cs) = remaining)"
proof (induction remaining arbitrary: buffer ctx w rule: less_induct)
  case (less remaining)
  show ?case
  proof (cases "remaining = 0")
    case True
    with lbs have "(remaining + LOADER_BUFFER_SIZE cfg - 1) div LOADER_BUFFER_SIZE cfg = 0"
      by simp
    with True show ?thesis by (simp add: stream_loop_done tx_lengths_def)
  next
    case False
    define chunk where
      "chunk = (if remaining > LOADER_BUFFER_SIZE cfg then LOADER_BUFFER_SIZE cfg else remaining)"
    define got where "got = rd buffer chunk ctx"
    define sent where
      "sent = write_update_block cfg p (fst (snd got)) chunk (emit [source_read chunk chunk] w)"
    from False lbs have chunk: "0 < chunk" "chunk \<le> remaining" "chunk \<le> LOADER_BUFFER_SIZE cfg"
      by (simp_all add: chunk_def)
    let ?it = "[source_read chunk chunk, xSemaphoreTake,
                spi_device_transmit (chunk * 8) (take chunk (fst (snd got))), xSemaphoreGive]"
    have sent_calls: "calls (snd sent) = calls w @ ?it"
      and sent_n: "n_transmit (snd sent) = n_transmit w + 1"
      and sent_res: "fst sent = spi_device_transmit_result p (n_transmit w)"
      using chunk by (simp_all add: sent_def wub_sent)
    show ?thesis
    proof (cases "fst got = chunk")
      case mismatch: False
      then have "stream_loop cfg p rd remaining buffer ctx ESP_OK w =
          Some (ESP_FAIL, fst (snd got), snd (snd got), emit [source_read chunk (fst got)] w)"
        using False by (simp add: stream_loop_mismatch [OF _ chunk_def] got_def)
      with mismatch show ?thesis by simp
    next
      case True
      show ?thesis
      proof (cases "fst sent = ESP_OK")
        case werr: False
        have "stream_loop cfg p rd remaining buffer ctx ESP_OK w =
            Some (fst sent, fst (snd got), snd (snd got), snd sent)"
          using False True werr
          by (simp add: stream_loop_write_error [OF _ chunk_def _ refl] got_def sent_def)
        moreover have "\<not> (\<forall>i. n_transmit w \<le> i \<and> i < n_transmit (snd sent) \<longrightarrow>
                   spi_device_transmit_result p i = ESP_OK)"
          using werr sent_res sent_n by auto
        ultimately show ?thesis using sent_calls
          by (intro exI [of _ "fst sent"] exI [of _ "fst (snd got)"] exI [of _ "snd (snd got)"]
                exI [of _ "snd sent"] exI [of _ ?it]) blast
      next
        case ok: True
        have eq: "stream_loop cfg p rd remaining buffer ctx ESP_OK w =
            stream_loop cfg p rd (remaining - chunk) (fst (snd got)) (snd (snd got)) ESP_OK
              (snd sent)"
          using False True ok
          by (simp add: stream_loop_next [OF _ chunk_def _ refl] got_def sent_def)
        from chunk have "remaining - chunk < remaining" by simp
        from less.IH [OF this, of "fst (snd got)" "snd (snd got)" "snd sent"]
        obtain r b c w' cs where
          run: "stream_loop cfg p rd (remaining - chunk) (fst (snd got)) (snd (snd got)) ESP_OK
                  (snd sent) = Some (r, b, c, w')"
          and cs: "calls w' = calls (snd sent) @ cs"
          and rest: "after_read_mismatch cs = None \<and>
            (\<forall>i. n_transmit (snd sent) \<le> i \<and> i < n_transmit w' \<longrightarrow>
                   spi_device_transmit_result p i = ESP_OK) \<longrightarrow>
              r = ESP_OK \<and>
              length (tx_lengths cs) =
                (remaining - chunk + LOADER_BUFFER_SIZE cfg - 1) div LOADER_BUFFER_SIZE cfg \<and>
              (\<forall>n \<in> set (tx_lengths cs). n \<le> LOADER_BUFFER_SIZE cfg) \<and>
              sum_list (tx_lengths cs) = remaining - chunk"
          by blast
        have it: "tx_lengths ?it = [chunk]" by (simp add: tx_lengths_def)
        have count: "(remaining + LOADER_BUFFER_SIZE cfg - 1) div LOADER_BUFFER_SIZE cfg =
                 Suc ((remaining - chunk + LOADER_BUFFER_SIZE cfg - 1) div LOADER_BUFFER_SIZE cfg)"
        proof -
          have lhs: "(remaining + LOADER_BUFFER_SIZE cfg - 1) div LOADER_BUFFER_SIZE cfg =
                     Suc ((remaining - 1) div LOADER_BUFFER_SIZE cfg)"
            using False lbs by (intro ceil_div_step) simp_all
          show ?thesis
          proof (cases "remaining > LOADER_BUFFER_SIZE cfg")
            case True
            then have "remaining - chunk + LOADER_BUFFER_SIZE cfg - 1 = remaining - 1"
              by (simp add: chunk_def)
            with lhs show ?thesis by simp
          next
            case small: False
            then have "remaining - chunk + LOADER_BUFFER_SIZE cfg - 1 < LOADER_BUFFER_SIZE cfg"
              and "remaining - 1 < LOADER_BUFFER_SIZE cfg"
              using False lbs by (simp_all add: chunk_def)
            with lhs show ?thesis by simp
          qed
        qed
        have whole: "stream_loop cfg p rd remaining buffer ctx ESP_OK w = Some (r, b, c, w')"
          using eq run by simp
        have calls: "calls w' = calls w @ (?it @ cs)" using cs sent_calls by simp
        have "after_read_mismatch (?it @ cs) = None \<and>
            (\<forall>i. n_transmit w \<le> i \<and> i < n_transmit w' \<longrightarrow>
                   spi_device_transmit_result p i = ESP_OK) \<longrightarrow>
              r = ESP_OK \<and>
              length (tx_lengths (?it @ cs)) =
                (remaining + LOADER_BUFFER_SIZE cfg - 1) div LOADER_BUFFER_SIZE cfg \<and>
              (\<forall>n \<in> set (tx_lengths (?it @ cs)). n \<le> LOADER_BUFFER_SIZE cfg) \<and>
              sum_list (tx_lengths (?it @ cs)) = remaining"
        proof
          assume good: "after_read_mismatch (?it @ cs) = None \<and>
            (\<forall>i. n_transmit w \<le> i \<and> i < n_transmit w' \<longrightarrow>
                   spi_device_transmit_result p i = ESP_OK)"
          then have "after_read_mismatch cs = None" by simp
          moreover have "\<forall>i. n_transmit (snd sent) \<le> i \<and> i < n_transmit w' \<longrightarrow>
                   spi_device_transmit_result p i = ESP_OK"
            using good sent_n by simp
          ultimately have r: "r = ESP_OK"
            and len: "length (tx_lengths cs) =
                (remaining - chunk + LOADER_BUFFER_SIZE cfg - 1) div LOADER_BUFFER_SIZE cfg"
            and bound: "\<forall>n \<in> set (tx_lengths cs). n \<le> LOADER_BUFFER_SIZE cfg"
            and total: "sum_list (tx_lengths cs) = remaining - chunk"
            using rest by blast+
          have "length (tx_lengths (?it @ cs)) =
              (remaining + LOADER_BUFFER_SIZE cfg - 1) div LOADER_BUFFER_SIZE cfg"
            using len count it by (simp only: tx_lengths_append length_append) simp
          moreover have "\<forall>n \<in> set (tx_lengths (?it @ cs)). n \<le> LOADER_BUFFER_SIZE cfg"
            using bound chunk(3) it by (simp only: tx_lengths_append set_append) auto
          moreover have "sum_list (tx_lengths (?it @ cs)) = remaining"
            using total chunk(2) it by (simp only: tx_lengths_append sum_list_append) simp
          ultimately show "r = ESP_OK \<and>
              length (tx_lengths (?it @ cs)) =
                (remaining + LOADER_BUFFER_SIZE cfg - 1) div LOADER_BUFFER_SIZE cfg \<and>
              (\<forall>n \<in> set (tx_lengths (?it @ cs)). n \<le> LOADER_BUFFER_SIZE cfg) \<and>
              sum_list (tx_lengths (?it @ cs)) = remaining"
            using r by blast
        qed
        with whole calls show ?thesis
          by (intro exI [of _ r] exI [of _ b] exI [of _ c] exI [of _ w'] exI [of _ "?it @ cs"])
             (simp only: simp_thms)
      qed
    qed
  qed
qed

lemma streamed20_run:
  "\<exists>b c. stream_loop cfg16 healthy (read_src image20) (size_src image20)
            (replicate 16 255) (ctx_src image20) ESP_OK boot = Some (ESP_OK, b, c, streamed20_end)"
  by (simp add: stream_loop.simps write_update_block_def LOADER_BUFFER_SIZE_def emit_def Let_def
        cfg16_def healthy_def boot_def image20_def rom_read_def streamed20_end_def
        image20_streamed_def upt_rec)

text \<open>
  C3. \<open>L\<close> bytes to stream and a buffer of \<open>C = LOADER_BUFFER_SIZE\<close> bytes, at least one
  (\<open>fpga_loader_load\<close> enters the loop only then: the dummy block is refused otherwise).
  The loop returns. If in that run every read delivered the number of bytes it was asked
  for (no read of the log came back with another count) and every transmission of the run
  returned \<open>ESP_OK\<close>, then the loop ends with \<open>ESP_OK\<close> and the transmissions it logged are
  \<open>(L + C - 1) div C\<close> many (that is \<open>ceil (L / C)\<close>), none longer than \<open>C\<close> bytes, \<open>L\<close>
  bytes in total. The source is arbitrary; the ROM source and the file source are
  instances.
\<close>

theorem streaming_chunks:
  assumes "1 \<le> LOADER_BUFFER_SIZE cfg"
  shows "\<exists>r b c w'.
           stream_loop cfg p rd L buffer ctx ESP_OK w = Some (r, b, c, w') \<and>
           (after_read_mismatch (new_calls w w') = None \<and>
            (\<forall>i. n_transmit w \<le> i \<and> i < n_transmit w' \<longrightarrow>
                   spi_device_transmit_result p i = ESP_OK) \<longrightarrow>
              r = ESP_OK \<and>
              length (tx_lengths (new_calls w w')) =
                (L + LOADER_BUFFER_SIZE cfg - 1) div LOADER_BUFFER_SIZE cfg \<and>
              (\<forall>n \<in> set (tx_lengths (new_calls w w')). n \<le> LOADER_BUFFER_SIZE cfg) \<and>
              sum_list (tx_lengths (new_calls w w')) = L)"
proof -
  from stream_loop_run [OF assms, of p rd L buffer ctx w] obtain r b c w' cs where
    run: "stream_loop cfg p rd L buffer ctx ESP_OK w = Some (r, b, c, w')"
    and cs: "calls w' = calls w @ cs"
    and good: "after_read_mismatch cs = None \<and>
            (\<forall>i. n_transmit w \<le> i \<and> i < n_transmit w' \<longrightarrow>
                   spi_device_transmit_result p i = ESP_OK) \<longrightarrow>
              r = ESP_OK \<and>
              length (tx_lengths cs) =
                (L + LOADER_BUFFER_SIZE cfg - 1) div LOADER_BUFFER_SIZE cfg \<and>
              (\<forall>n \<in> set (tx_lengths cs). n \<le> LOADER_BUFFER_SIZE cfg) \<and>
              sum_list (tx_lengths cs) = L"
    by blast
  from cs have "new_calls w w' = cs" by (simp add: new_calls_def)
  with run good show ?thesis by (intro exI [of _ r] exI [of _ b] exI [of _ c] exI [of _ w']) simp
qed

theorem streaming_chunks_witness:
  "(\<exists>b c. stream_loop cfg16 healthy (read_src image20) (size_src image20)
            (replicate 16 255) (ctx_src image20) ESP_OK boot = Some (ESP_OK, b, c, streamed20_end)) \<and>
   after_read_mismatch (new_calls boot streamed20_end) = None \<and>
   tx_lengths (new_calls boot streamed20_end) = [16, 4] \<and>
   length (tx_lengths (new_calls boot streamed20_end)) = (20 + 16 - 1) div 16 \<and>
   sum_list (tx_lengths (new_calls boot streamed20_end)) = 20"
proof -
  have lbs: "1 \<le> LOADER_BUFFER_SIZE cfg16"
    by (simp add: LOADER_BUFFER_SIZE_def cfg16_def)
  have c16: "LOADER_BUFFER_SIZE cfg16 = 16"
    by (simp add: LOADER_BUFFER_SIZE_def cfg16_def)
  have L: "size_src image20 = 20" by (simp add: image20_def)
  have reads: "after_read_mismatch (new_calls boot streamed20_end) = None"
    by (simp add: new_calls_def boot_def streamed20_end_def image20_streamed_def)
  have txs: "\<forall>i. n_transmit boot \<le> i \<and> i < n_transmit streamed20_end \<longrightarrow>
                 spi_device_transmit_result healthy i = ESP_OK"
    by (simp add: healthy_def)
  have lens: "tx_lengths (new_calls boot streamed20_end) = [16, 4]"
    by (simp add: new_calls_def boot_def streamed20_end_def image20_streamed_def tx_lengths_def)
  from streaming_chunks [OF lbs, of healthy "read_src image20" "size_src image20"
      "replicate 16 255" "ctx_src image20" boot] streamed20_run reads txs
  have "length (tx_lengths (new_calls boot streamed20_end)) =
          (size_src image20 + LOADER_BUFFER_SIZE cfg16 - 1) div LOADER_BUFFER_SIZE cfg16 \<and>
        sum_list (tx_lengths (new_calls boot streamed20_end)) = size_src image20"
    by auto
  with streamed20_run reads lens show ?thesis by (simp add: c16 L)
qed

section \<open>Polling CDONE\<close>

lemma cdone_poll_hit:
  assumes "cdone_level p (n_cdone w) = (if v then 1 else 0)"
  shows "cdone_poll p v t w =
           Some (ESP_OK, (emit [gpio_get_level CONFIG_FPGA_CDONE_GPIO (if v then 1 else 0)] w)
                           \<lparr>n_cdone := n_cdone w + 1\<rparr>)"
  using assms by (subst cdone_poll.simps) (simp add: Let_def)

lemma cdone_poll_expired:
  assumes "cdone_level p (n_cdone w) \<noteq> (if v then 1 else 0)"
    and "tick_count p (n_tick w) > t"
  shows "cdone_poll p v t w =
           Some (ESP_ERR_TIMEOUT,
                 (emit [xTaskGetTickCount]
                    ((emit [gpio_get_level CONFIG_FPGA_CDONE_GPIO (cdone_level p (n_cdone w))] w)
                       \<lparr>n_cdone := n_cdone w + 1\<rparr>))\<lparr>n_tick := n_tick w + 1\<rparr>)"
  using assms by (subst cdone_poll.simps) (simp add: Let_def)

lemma cdone_poll_again:
  assumes "cdone_level p (n_cdone w) \<noteq> (if v then 1 else 0)"
    and "\<not> tick_count p (n_tick w) > t"
  shows "cdone_poll p v t w =
           cdone_poll p v t
             (emit [vTaskDelay 1]
                ((emit [xTaskGetTickCount]
                    ((emit [gpio_get_level CONFIG_FPGA_CDONE_GPIO (cdone_level p (n_cdone w))] w)
                       \<lparr>n_cdone := n_cdone w + 1\<rparr>))\<lparr>n_tick := n_tick w + 1\<rparr>))"
  using assms by (subst cdone_poll.simps) (simp add: Let_def)

lemma cdone_poll_log:
  assumes "cdone_poll p v t w = Some y"
  shows "\<exists>poll. calls (snd y) = calls w @ poll \<and> list_all is_poll_call poll \<and>
           n_transmit (snd y) = n_transmit w \<and>
           fpga_update_device (snd y) = fpga_update_device w \<and>
           (fst y = ESP_OK \<and>
              (\<exists>before. poll = before @ [gpio_get_level CONFIG_FPGA_CDONE_GPIO (if v then 1 else 0)])
            \<or> fst y = ESP_ERR_TIMEOUT)"
proof -
  let ?P = "\<lambda>(p::platform) v (t::TickType_t) w (y::esp_err_t \<times> world).
     \<exists>poll. calls (snd y) = calls w @ poll \<and> list_all is_poll_call poll \<and>
           n_transmit (snd y) = n_transmit w \<and>
           fpga_update_device (snd y) = fpga_update_device w \<and>
           (fst y = ESP_OK \<and>
              (\<exists>before. poll = before @ [gpio_get_level CONFIG_FPGA_CDONE_GPIO (if v then 1 else 0)])
            \<or> fst y = ESP_ERR_TIMEOUT)"
  have "?P p v t w y"
  proof (rule cdone_poll.raw_induct [where P = ?P, rotated, OF assms])
    fix f :: "platform \<Rightarrow> bool \<Rightarrow> TickType_t \<Rightarrow> world \<Rightarrow> (esp_err_t \<times> world) option"
    fix p v t w y
    assume IH: "\<And>p v t w y. f p v t w = Some y \<Longrightarrow> ?P p v t w y"
    assume step: "(let level = cdone_level p (n_cdone w);
          w1 = (emit [gpio_get_level CONFIG_FPGA_CDONE_GPIO level] w)
                 \<lparr>n_cdone := n_cdone w + 1\<rparr>
      in if level \<noteq> (if v then 1 else 0) then
           let now = tick_count p (n_tick w1);
               w2 = (emit [xTaskGetTickCount] w1)\<lparr>n_tick := n_tick w1 + 1\<rparr>
           in if now > t then Some (ESP_ERR_TIMEOUT, w2)
              else f p v t (emit [vTaskDelay 1] w2)
         else Some (ESP_OK, w1)) = Some y"
    show "?P p v t w y"
    proof (cases "cdone_level p (n_cdone w) = (if v then 1 else 0)")
      case True
      with step have "y = (ESP_OK,
          (emit [gpio_get_level CONFIG_FPGA_CDONE_GPIO (cdone_level p (n_cdone w))] w)
            \<lparr>n_cdone := n_cdone w + 1\<rparr>)"
        by (simp add: Let_def split: if_splits)
      with True show ?thesis by (auto split: if_splits)
    next
      case False
      show ?thesis
      proof (cases "tick_count p (n_tick w) > t")
        case True
        with False step have "y = (ESP_ERR_TIMEOUT,
            (emit [xTaskGetTickCount]
               ((emit [gpio_get_level CONFIG_FPGA_CDONE_GPIO (cdone_level p (n_cdone w))] w)
                  \<lparr>n_cdone := n_cdone w + 1\<rparr>))\<lparr>n_tick := n_tick w + 1\<rparr>)"
          by (simp add: Let_def split: if_splits)
        then show ?thesis by simp
      next
        case later: False
        with False step have "f p v t (emit [vTaskDelay 1]
            ((emit [xTaskGetTickCount]
               ((emit [gpio_get_level CONFIG_FPGA_CDONE_GPIO (cdone_level p (n_cdone w))] w)
                  \<lparr>n_cdone := n_cdone w + 1\<rparr>))\<lparr>n_tick := n_tick w + 1\<rparr>)) = Some y"
          by (simp add: Let_def split: if_splits)
        from IH [OF this] show ?thesis by (auto split: if_splits)
      qed
    qed
  qed
  then show ?thesis by simp
qed

lemma cdone_poll_agree:
  assumes "cdone_poll p v t w = Some y"
  shows "cdone_level p' = cdone_level p \<and> tick_count p' = tick_count p \<longrightarrow>
           cdone_poll p' v t w = Some y"
proof -
  let ?P = "\<lambda>(p::platform) v (t::TickType_t) w (y::esp_err_t \<times> world).
     cdone_level p' = cdone_level p \<and> tick_count p' = tick_count p \<longrightarrow>
           cdone_poll p' v t w = Some y"
  have "?P p v t w y"
  proof (rule cdone_poll.raw_induct [where P = ?P, rotated, OF assms])
    fix f :: "platform \<Rightarrow> bool \<Rightarrow> TickType_t \<Rightarrow> world \<Rightarrow> (esp_err_t \<times> world) option"
    fix p v t w y
    assume IH: "\<And>p v t w y. f p v t w = Some y \<Longrightarrow> ?P p v t w y"
    assume step: "(let level = cdone_level p (n_cdone w);
          w1 = (emit [gpio_get_level CONFIG_FPGA_CDONE_GPIO level] w)
                 \<lparr>n_cdone := n_cdone w + 1\<rparr>
      in if level \<noteq> (if v then 1 else 0) then
           let now = tick_count p (n_tick w1);
               w2 = (emit [xTaskGetTickCount] w1)\<lparr>n_tick := n_tick w1 + 1\<rparr>
           in if now > t then Some (ESP_ERR_TIMEOUT, w2)
              else f p v t (emit [vTaskDelay 1] w2)
         else Some (ESP_OK, w1)) = Some y"
    show "?P p v t w y"
    proof
      assume same: "cdone_level p' = cdone_level p \<and> tick_count p' = tick_count p"
      show "cdone_poll p' v t w = Some y"
      proof (cases "cdone_level p (n_cdone w) = (if v then 1 else 0)")
        case True
        with step same show ?thesis
          by (subst cdone_poll.simps) (simp add: Let_def split: if_splits)
      next
        case False
        show ?thesis
        proof (cases "tick_count p (n_tick w) > t")
          case True
          with False step same show ?thesis
            by (subst cdone_poll.simps) (simp add: Let_def split: if_splits)
        next
          case later: False
          with False step have "f p v t (emit [vTaskDelay 1]
              ((emit [xTaskGetTickCount]
                 ((emit [gpio_get_level CONFIG_FPGA_CDONE_GPIO (cdone_level p (n_cdone w))] w)
                    \<lparr>n_cdone := n_cdone w + 1\<rparr>))\<lparr>n_tick := n_tick w + 1\<rparr>)) = Some y"
            by (simp add: Let_def split: if_splits)
          from IH [OF this] same
          have "cdone_poll p' v t (emit [vTaskDelay 1]
              ((emit [xTaskGetTickCount]
                 ((emit [gpio_get_level CONFIG_FPGA_CDONE_GPIO (cdone_level p (n_cdone w))] w)
                    \<lparr>n_cdone := n_cdone w + 1\<rparr>))\<lparr>n_tick := n_tick w + 1\<rparr>)) = Some y"
            by simp
          with False later same show ?thesis
            by (subst cdone_poll.simps) (simp add: Let_def split: if_splits)
        qed
      qed
    qed
  qed
  then show ?thesis by simp
qed

lemma cdone_poll_timeout:
  assumes "tick_count p (n_tick w + k) > t"
    and "\<forall>j\<le>k. cdone_level p (n_cdone w + j) \<noteq> (if v then 1 else 0)"
  shows "\<exists>w'. cdone_poll p v t w = Some (ESP_ERR_TIMEOUT, w')"
  using assms
proof (induction k arbitrary: w)
  case 0
  then show ?case by (simp add: cdone_poll_expired)
next
  case (Suc k)
  from Suc.prems(2) have low: "cdone_level p (n_cdone w) \<noteq> (if v then 1 else 0)"
    by (metis add.right_neutral le0)
  show ?case
  proof (cases "tick_count p (n_tick w) > t")
    case True
    with low show ?thesis by (simp add: cdone_poll_expired)
  next
    case False
    let ?w = "emit [vTaskDelay 1]
                ((emit [xTaskGetTickCount]
                    ((emit [gpio_get_level CONFIG_FPGA_CDONE_GPIO (cdone_level p (n_cdone w))] w)
                       \<lparr>n_cdone := n_cdone w + 1\<rparr>))\<lparr>n_tick := n_tick w + 1\<rparr>)"
    have "tick_count p (n_tick ?w + k) > t" using Suc.prems(1) by simp
    moreover have "\<forall>j\<le>k. cdone_level p (n_cdone ?w + j) \<noteq> (if v then 1 else 0)"
    proof (intro allI impI)
      fix j assume "j \<le> k"
      then have "Suc j \<le> Suc k" by simp
      with Suc.prems(2) have "cdone_level p (n_cdone w + Suc j) \<noteq> (if v then 1 else 0)"
        by blast
      then show "cdone_level p (n_cdone ?w + j) \<noteq> (if v then 1 else 0)" by simp
    qed
    ultimately obtain w' where "cdone_poll p v t ?w = Some (ESP_ERR_TIMEOUT, w')"
      using Suc.IH by blast
    with low False show ?thesis by (simp add: cdone_poll_again)
  qed
qed

lemma cdone_poll_returns:
  assumes "tick_count p (n_tick w + k) > t \<or>
           cdone_level p (n_cdone w + k) = (if v then 1 else 0)"
  shows "\<exists>y. cdone_poll p v t w = Some y"
  using assms
proof (induction k arbitrary: w)
  case 0
  then show ?case
    by (cases "cdone_level p (n_cdone w) = (if v then 1 else 0)")
       (auto simp: cdone_poll_hit cdone_poll_expired)
next
  case (Suc k)
  show ?case
  proof (cases "cdone_level p (n_cdone w) = (if v then 1 else 0)")
    case True
    then show ?thesis by (simp add: cdone_poll_hit)
  next
    case low: False
    show ?thesis
    proof (cases "tick_count p (n_tick w) > t")
      case True
      with low show ?thesis by (simp add: cdone_poll_expired)
    next
      case False
      let ?w = "emit [vTaskDelay 1]
                  ((emit [xTaskGetTickCount]
                      ((emit [gpio_get_level CONFIG_FPGA_CDONE_GPIO (cdone_level p (n_cdone w))] w)
                         \<lparr>n_cdone := n_cdone w + 1\<rparr>))\<lparr>n_tick := n_tick w + 1\<rparr>)"
      have "tick_count p (n_tick ?w + k) > t \<or>
            cdone_level p (n_cdone ?w + k) = (if v then 1 else 0)"
        using Suc.prems by simp
      from Suc.IH [OF this] low False show ?thesis by (simp add: cdone_poll_again)
    qed
  qed
qed

text \<open>
  The deadline is computed in \<open>TickType_t\<close>. When entry tick and timeout add up without
  wrapping, a tick read that is later than their sum is past the deadline.
\<close>

lemma deadline_passed:
  fixes now d t :: TickType_t
  assumes "unat now + unat d < unat t"
  shows "now + d < t"
proof -
  have "unat t < 2 ^ LENGTH(32)" by (rule unsigned_less)
  with assms have "unat now + unat d < 2 ^ LENGTH(32)" by simp
  then have "unat (now + d) = unat now + unat d" by (rule unat_add_lem [THEN iffD1])
  with assms show ?thesis by (simp add: word_less_nat_alt)
qed

text \<open>
  When the sum is \<open>0xFFFFFFFF\<close>, no tick count is greater: with the pin never at the
  level, the loop does not end.
\<close>

lemma cdone_poll_hangs:
  assumes "\<forall>j. cdone_level p j \<noteq> (if v then 1 else 0)"
  shows "cdone_poll p v (- 1) w = None"
proof (cases "cdone_poll p v (- 1) w")
  case None
  then show ?thesis .
next
  case (Some y)
  let ?P = "\<lambda>(p::platform) v (t::TickType_t) (w::world) (y::esp_err_t \<times> world).
     t = - 1 \<and> (\<forall>j. cdone_level p j \<noteq> (if v then 1 else 0)) \<longrightarrow> False"
  have "?P p v (- 1) w y"
  proof (rule cdone_poll.raw_induct [where P = ?P, rotated, OF Some])
    fix f :: "platform \<Rightarrow> bool \<Rightarrow> TickType_t \<Rightarrow> world \<Rightarrow> (esp_err_t \<times> world) option"
    fix p v t w y
    assume IH: "\<And>p v t w y. f p v t w = Some y \<Longrightarrow> ?P p v t w y"
    assume step: "(let level = cdone_level p (n_cdone w);
          w1 = (emit [gpio_get_level CONFIG_FPGA_CDONE_GPIO level] w)
                 \<lparr>n_cdone := n_cdone w + 1\<rparr>
      in if level \<noteq> (if v then 1 else 0) then
           let now = tick_count p (n_tick w1);
               w2 = (emit [xTaskGetTickCount] w1)\<lparr>n_tick := n_tick w1 + 1\<rparr>
           in if now > t then Some (ESP_ERR_TIMEOUT, w2)
              else f p v t (emit [vTaskDelay 1] w2)
         else Some (ESP_OK, w1)) = Some y"
    show "?P p v t w y"
    proof
      assume hyp: "t = - 1 \<and> (\<forall>j. cdone_level p j \<noteq> (if v then 1 else 0))"
      then have low: "cdone_level p (n_cdone w) \<noteq> (if v then 1 else 0)" by blast
      have never: "\<not> tick_count p (n_tick w) > - 1" by simp
      from step low never hyp have "f p v t (emit [vTaskDelay 1]
            ((emit [xTaskGetTickCount]
               ((emit [gpio_get_level CONFIG_FPGA_CDONE_GPIO (cdone_level p (n_cdone w))] w)
                  \<lparr>n_cdone := n_cdone w + 1\<rparr>))\<lparr>n_tick := n_tick w + 1\<rparr>)) = Some y"
        by (simp add: Let_def split: if_splits)
      from IH [OF this] hyp show False by blast
    qed
  qed
  with assms show ?thesis by simp
qed

section \<open>The whole run\<close>

lemma reset_pin_set_simps [simp]:
  "calls (reset_pin_set v w) =
     calls w @ [gpio_set_level CONFIG_FPGA_CRESET_GPIO (if v then 1 else 0)]"
  "n_transmit (reset_pin_set v w) = n_transmit w"
  "n_cdone (reset_pin_set v w) = n_cdone w"
  "n_tick (reset_pin_set v w) = n_tick w"
  "fpga_update_device (reset_pin_set v w) = fpga_update_device w"
  by (simp_all add: reset_pin_set_def)

lemma update_spi_device_add_simps [simp]:
  "fst (update_spi_device_add p w) = spi_bus_add_device_result p"
  "calls (snd (update_spi_device_add p w)) = calls w @ [spi_bus_add_device]"
  "n_transmit (snd (update_spi_device_add p w)) = n_transmit w"
  "n_cdone (snd (update_spi_device_add p w)) = n_cdone w"
  "n_tick (snd (update_spi_device_add p w)) = n_tick w"
  by (simp_all add: update_spi_device_add_def Let_def)

lemma wub_padding_log:
  "calls (snd (write_update_block cfg p (replicate (LOADER_BUFFER_SIZE cfg) 0) len w)) =
     calls w @ padding cfg len"
  by (simp add: write_update_block_def padding_def Let_def min_def)

lemma wub_n_transmit:
  "n_transmit (snd (write_update_block cfg p b len w)) =
     (if len > LOADER_BUFFER_SIZE cfg then n_transmit w else n_transmit w + 1)"
  by (simp add: write_update_block_def Let_def)

lemma cleanup_bus_eq:
  "cleanup_bus p ret w =
     (ret, (emit [spi_device_release_bus, spi_bus_remove_device] w)\<lparr>fpga_update_device := None\<rparr>)"
  by (simp add: cleanup_bus_def cleanup_device_def update_spi_device_remove_def emit_def)

lemma cleanup_device_eq:
  "cleanup_device p ret w =
     (ret, (emit [spi_bus_remove_device] w)\<lparr>fpga_update_device := None\<rparr>)"
  by (simp add: cleanup_device_def update_spi_device_remove_def)

lemma cdone_pin_wait_log:
  assumes "cdone_pin_wait cfg p v ms w = Some (ret, w')"
  shows "\<exists>poll. calls w' = calls w @ poll \<and> list_all is_poll_call poll \<and>
           n_transmit w' = n_transmit w \<and>
           fpga_update_device w' = fpga_update_device w \<and>
           (ret = ESP_OK \<and>
              (\<exists>before. poll = before @ [gpio_get_level CONFIG_FPGA_CDONE_GPIO (if v then 1 else 0)])
            \<or> ret = ESP_ERR_TIMEOUT)"
proof -
  let ?w1 = "(emit [xTaskGetTickCount] w)\<lparr>n_tick := n_tick w + 1\<rparr>"
  from assms have "cdone_poll p v (tick_count p (n_tick w) + pdMS_TO_TICKS cfg ms) ?w1 =
      Some (ret, w')"
    by (simp add: cdone_pin_wait_def Let_def)
  from cdone_poll_log [OF this] obtain poll where
    poll: "calls w' = calls ?w1 @ poll" "list_all is_poll_call poll"
      "n_transmit w' = n_transmit ?w1" "fpga_update_device w' = fpga_update_device ?w1"
      "ret = ESP_OK \<and>
         (\<exists>before. poll = before @ [gpio_get_level CONFIG_FPGA_CDONE_GPIO (if v then 1 else 0)])
       \<or> ret = ESP_ERR_TIMEOUT"
    by auto
  have "calls w' = calls w @ (xTaskGetTickCount # poll)" using poll(1) by simp
  moreover have "list_all is_poll_call (xTaskGetTickCount # poll)" using poll(2) by simp
  moreover have "ret = ESP_OK \<and>
         (\<exists>before. xTaskGetTickCount # poll =
            before @ [gpio_get_level CONFIG_FPGA_CDONE_GPIO (if v then 1 else 0)])
       \<or> ret = ESP_ERR_TIMEOUT"
    using poll(5) by (metis append_Cons)
  ultimately show ?thesis using poll(3,4) by (intro exI [of _ "xTaskGetTickCount # poll"]) simp
qed

lemma load_reached:
  assumes "reaches_completion cfg p w0"
  shows "fpga_loader_load cfg p source w0 =
           (case stream_loop cfg p (read_src source) (size_src source)
                   (map (heap_garbage p) [0..<LOADER_BUFFER_SIZE cfg])
                   (ctx_src source) ESP_OK
                   (w0\<lparr>calls := calls w0 @ prologue cfg,
                       n_transmit := Suc (n_transmit w0),
                       fpga_update_device := Some (spi_bus_add_device_handle p)\<rparr>) of
              None \<Rightarrow> None
            | Some (_, _, _, w10) \<Rightarrow>
                (case cdone_pin_wait cfg p True 100
                        (snd (write_update_block cfg p (replicate (LOADER_BUFFER_SIZE cfg) 0) 13
                                (emit [gpio_set_level CONFIG_FPGA_CS_GPIO 1] w10))) of
                   None \<Rightarrow> None
                 | Some (ret, w13) \<Rightarrow>
                     Some (cleanup_bus p ret
                             (emit [gpio_set_level CONFIG_FPGA_CS_GPIO 1,
                                    gpio_matrix_out CONFIG_FPGA_CS_GPIO FSPICS0_OUT_IDX,
                                    heap_caps_free]
                                (snd (write_update_block cfg p
                                        (replicate (LOADER_BUFFER_SIZE cfg) 0) 7 w13))))))"
proof -
  from assms have ok: "spi_bus_add_device_result p = ESP_OK"
    "spi_device_acquire_bus_result p = ESP_OK" "1 \<le> LOADER_BUFFER_SIZE cfg"
    "spi_device_transmit_result p (n_transmit w0) = ESP_OK" "heap_caps_malloc_succeeds p"
    by (simp_all add: reaches_completion_def)
  let ?w6 = "emit [vTaskDelay (pdMS_TO_TICKS cfg 2), gpio_set_level CONFIG_FPGA_CS_GPIO 1]
              (reset_pin_set True
                (emit [gpio_set_level CONFIG_FPGA_CS_GPIO 0,
                       gpio_matrix_out CONFIG_FPGA_CS_GPIO SIG_GPIO_OUT_IDX, vTaskDelay 1]
                  (reset_pin_set False
                    (emit [spi_device_acquire_bus] (snd (update_spi_device_add p w0))))))"
  let ?w9 = "emit [heap_caps_malloc (LOADER_BUFFER_SIZE cfg) True]
              (emit [gpio_set_level CONFIG_FPGA_CS_GPIO 0]
                (snd (write_update_block cfg p [0] 1 ?w6)))"
  have dummy: "fst (write_update_block cfg p [0] 1 ?w6) = ESP_OK"
    using ok(3,4) by (simp add: wub_sent(1))
  have w9: "?w9 = w0\<lparr>calls := calls w0 @ prologue cfg,
                       n_transmit := Suc (n_transmit w0),
                       fpga_update_device := Some (spi_bus_add_device_handle p)\<rparr>"
    using ok(1,3)
    by (intro world.equality)
       (simp_all add: wub_sent(2,3) prologue_def update_spi_device_add_def emit_def
          reset_pin_set_def write_update_block_def Let_def)
  have "fpga_loader_load cfg p source w0 =
             (case stream_loop cfg p (read_src source) (size_src source)
                     (map (heap_garbage p) [0..<LOADER_BUFFER_SIZE cfg])
                     (ctx_src source) ESP_OK ?w9 of
                None \<Rightarrow> None
              | Some (_, _, _, w10) \<Rightarrow>
                  (case cdone_pin_wait cfg p True 100
                          (snd (write_update_block cfg p (replicate (LOADER_BUFFER_SIZE cfg) 0) 13
                                  (emit [gpio_set_level CONFIG_FPGA_CS_GPIO 1] w10))) of
                     None \<Rightarrow> None
                   | Some (ret, w13) \<Rightarrow>
                       Some (cleanup_bus p ret
                               (emit [gpio_set_level CONFIG_FPGA_CS_GPIO 1,
                                      gpio_matrix_out CONFIG_FPGA_CS_GPIO FSPICS0_OUT_IDX,
                                      heap_caps_free]
                                  (snd (write_update_block cfg p
                                          (replicate (LOADER_BUFFER_SIZE cfg) 0) 7 w13))))))"
    unfolding fpga_loader_load_def Let_def
    using ok(1,2,5) dummy by simp
  then show ?thesis by (simp only: w9)
qed

lemma load_completion_log:
  assumes reach: "reaches_completion cfg p w0"
    and run: "fpga_loader_load cfg p source w0 = Some (ret, w')"
  shows "\<exists>stream poll.
           calls w' = calls w0 @ prologue cfg @ stream @
                        gpio_set_level CONFIG_FPGA_CS_GPIO 1 # padding cfg 13 @ poll @
                        padding cfg 7 @ hand_off \<and>
           list_all is_stream_call stream \<and>
           (after_read_mismatch stream = None \<or> after_read_mismatch stream = Some []) \<and>
           list_all is_poll_call poll \<and>
           (ret = ESP_OK \<and>
              (\<exists>before. poll = before @ [gpio_get_level CONFIG_FPGA_CDONE_GPIO 1])
            \<or> ret = ESP_ERR_TIMEOUT) \<and>
           fpga_update_device w' = None"
proof -
  let ?zeros = "replicate (LOADER_BUFFER_SIZE cfg) (0 :: byte)"
  from reach have lbs: "1 \<le> LOADER_BUFFER_SIZE cfg"
    by (simp add: reaches_completion_def)
  define w9 where "w9 = w0\<lparr>calls := calls w0 @ prologue cfg,
                               n_transmit := Suc (n_transmit w0),
                               fpga_update_device := Some (spi_bus_add_device_handle p)\<rparr>"
  have w9: "calls w9 = calls w0 @ prologue cfg" by (simp add: w9_def)
  have load: "fpga_loader_load cfg p source w0 =
             (case stream_loop cfg p (read_src source) (size_src source)
                     (map (heap_garbage p) [0..<LOADER_BUFFER_SIZE cfg])
                     (ctx_src source) ESP_OK w9 of
                None \<Rightarrow> None
              | Some (_, _, _, w10) \<Rightarrow>
                  (case cdone_pin_wait cfg p True 100
                          (snd (write_update_block cfg p ?zeros 13
                                  (emit [gpio_set_level CONFIG_FPGA_CS_GPIO 1] w10))) of
                     None \<Rightarrow> None
                   | Some (ret, w13) \<Rightarrow>
                       Some (cleanup_bus p ret
                               (emit [gpio_set_level CONFIG_FPGA_CS_GPIO 1,
                                      gpio_matrix_out CONFIG_FPGA_CS_GPIO FSPICS0_OUT_IDX,
                                      heap_caps_free]
                                  (snd (write_update_block cfg p ?zeros 7 w13))))))"
    unfolding w9_def by (rule load_reached [OF reach])
  from stream_loop_total [OF lbs, of p "read_src source" "size_src source"
      "map (heap_garbage p) [0..<LOADER_BUFFER_SIZE cfg]" "ctx_src source" ESP_OK w9]
  obtain r b c w10 stream where
    loop: "stream_loop cfg p (read_src source) (size_src source)
             (map (heap_garbage p) [0..<LOADER_BUFFER_SIZE cfg]) (ctx_src source) ESP_OK w9 =
           Some (r, b, c, w10)"
    and stream: "calls w10 = calls w9 @ stream" "list_all is_stream_call stream"
      "after_read_mismatch stream = None \<or> after_read_mismatch stream = Some []"
    by blast
  let ?w12 = "snd (write_update_block cfg p ?zeros 13
                     (emit [gpio_set_level CONFIG_FPGA_CS_GPIO 1] w10))"
  from load loop run obtain ret' w13 where
    wait: "cdone_pin_wait cfg p True 100 ?w12 = Some (ret', w13)"
    and fin: "(ret, w') = cleanup_bus p ret'
                (emit [gpio_set_level CONFIG_FPGA_CS_GPIO 1,
                       gpio_matrix_out CONFIG_FPGA_CS_GPIO FSPICS0_OUT_IDX,
                       heap_caps_free]
                   (snd (write_update_block cfg p ?zeros 7 w13)))"
    by (auto split: option.splits)
  from cdone_pin_wait_log [OF wait] obtain poll where
    poll: "calls w13 = calls ?w12 @ poll" "list_all is_poll_call poll"
      "ret' = ESP_OK \<and>
         (\<exists>before. poll = before @ [gpio_get_level CONFIG_FPGA_CDONE_GPIO 1])
       \<or> ret' = ESP_ERR_TIMEOUT"
    by auto
  from fin have ret: "ret = ret'"
    and w': "w' = (emit [spi_device_release_bus, spi_bus_remove_device]
                     (emit [gpio_set_level CONFIG_FPGA_CS_GPIO 1,
                            gpio_matrix_out CONFIG_FPGA_CS_GPIO FSPICS0_OUT_IDX,
                            heap_caps_free]
                        (snd (write_update_block cfg p ?zeros 7 w13))))
                  \<lparr>fpga_update_device := None\<rparr>"
    by (simp_all add: cleanup_bus_eq)
  have "calls w' = calls w0 @ prologue cfg @ stream @
                     gpio_set_level CONFIG_FPGA_CS_GPIO 1 # padding cfg 13 @ poll @
                     padding cfg 7 @ hand_off"
    by (simp add: w' wub_padding_log poll(1) stream(1) w9 hand_off_def)
  moreover have "fpga_update_device w' = None" by (simp add: w')
  ultimately show ?thesis using stream(2,3) poll(2,3) ret by blast
qed

lemma load_early_exit:
  assumes "\<not> reaches_completion cfg p w0"
  shows "\<exists>r w' new. fpga_loader_load cfg p source w0 = Some (r, w') \<and> r \<noteq> ESP_OK \<and>
           calls w' = calls w0 @ new \<and> after_read_mismatch new = None \<and>
           (spi_bus_add_device_result p = ESP_OK \<and> spi_device_acquire_bus_result p = ESP_OK \<longrightarrow>
              fpga_update_device w' = None \<and>
              (\<exists>body. new = body @ [spi_device_release_bus, spi_bus_remove_device] \<and>
                      heap_caps_malloc (LOADER_BUFFER_SIZE cfg) True \<notin> set body))"
proof -
  let ?w6 = "emit [vTaskDelay (pdMS_TO_TICKS cfg 2), gpio_set_level CONFIG_FPGA_CS_GPIO 1]
              (reset_pin_set True
                (emit [gpio_set_level CONFIG_FPGA_CS_GPIO 0,
                       gpio_matrix_out CONFIG_FPGA_CS_GPIO SIG_GPIO_OUT_IDX, vTaskDelay 1]
                  (reset_pin_set False
                    (emit [spi_device_acquire_bus] (snd (update_spi_device_add p w0))))))"
  consider (add) "spi_bus_add_device_result p \<noteq> ESP_OK"
    | (acquire) "spi_bus_add_device_result p = ESP_OK" "spi_device_acquire_bus_result p \<noteq> ESP_OK"
    | (refused) "spi_bus_add_device_result p = ESP_OK" "spi_device_acquire_bus_result p = ESP_OK"
        "\<not> 1 \<le> LOADER_BUFFER_SIZE cfg"
    | (dummy) "spi_bus_add_device_result p = ESP_OK" "spi_device_acquire_bus_result p = ESP_OK"
        "1 \<le> LOADER_BUFFER_SIZE cfg" "spi_device_transmit_result p (n_transmit w0) \<noteq> ESP_OK"
    | (nomem) "spi_bus_add_device_result p = ESP_OK" "spi_device_acquire_bus_result p = ESP_OK"
        "1 \<le> LOADER_BUFFER_SIZE cfg" "spi_device_transmit_result p (n_transmit w0) = ESP_OK"
        "\<not> heap_caps_malloc_succeeds p"
    using assms unfolding reaches_completion_def by blast
  then show ?thesis
  proof cases
    case add
    then have "fpga_loader_load cfg p source w0 =
        Some (spi_bus_add_device_result p, snd (update_spi_device_add p w0))"
      by (simp add: fpga_loader_load_def Let_def update_spi_device_add_def)
    with add show ?thesis by simp
  next
    case acquire
    then have "fpga_loader_load cfg p source w0 =
        Some (cleanup_device p (spi_device_acquire_bus_result p)
                (emit [spi_device_acquire_bus] (snd (update_spi_device_add p w0))))"
      by (simp add: fpga_loader_load_def Let_def)
    with acquire show ?thesis by (simp add: cleanup_device_eq)
  next
    case refused
    then have dummy: "write_update_block cfg p [0] 1 ?w6 = (ESP_FAIL, ?w6)"
      by (intro wub_refused) simp
    with refused have "fpga_loader_load cfg p source w0 = Some (cleanup_bus p ESP_FAIL ?w6)"
      by (simp add: fpga_loader_load_def Let_def)
    then show ?thesis by (simp add: cleanup_bus_eq)
  next
    case dummy
    let ?d = "write_update_block cfg p [0] 1 ?w6"
    from dummy have d: "fst ?d \<noteq> ESP_OK" by (simp add: wub_sent(1))
    with dummy have "fpga_loader_load cfg p source w0 = Some (cleanup_bus p (fst ?d) (snd ?d))"
      by (simp add: fpga_loader_load_def Let_def)
    with d dummy(3) show ?thesis by (simp add: cleanup_bus_eq wub_sent(2))
  next
    case nomem
    let ?d = "write_update_block cfg p [0] 1 ?w6"
    from nomem have d: "fst ?d = ESP_OK" by (simp add: wub_sent(1))
    with nomem have "fpga_loader_load cfg p source w0 =
        Some (cleanup_bus p ESP_ERR_NO_MEM
                (emit [heap_caps_malloc (LOADER_BUFFER_SIZE cfg) False]
                   (emit [gpio_set_level CONFIG_FPGA_CS_GPIO 0] (snd ?d))))"
      by (simp add: fpga_loader_load_def Let_def)
    with nomem(3) show ?thesis by (simp add: cleanup_bus_eq wub_sent(2))
  qed
qed

lemma new_calls_append [simp]: "calls w' = calls w0 @ new \<Longrightarrow> new_calls w0 w' = new"
  by (simp add: new_calls_def)

lemma poll_calls_no_read:
  "list_all is_poll_call cs \<Longrightarrow> after_read_mismatch cs = None"
  by (induction cs rule: after_read_mismatch.induct) simp_all

lemma padding_no_read [simp]: "after_read_mismatch (padding cfg len) = None"
  by (simp add: padding_def)

lemma hand_off_no_read [simp]: "after_read_mismatch hand_off = None"
  by (simp add: hand_off_def)

lemma prologue_no_read [simp]: "after_read_mismatch (prologue cfg) = None"
  by (simp add: prologue_def)

lemma cdone_pin_wait_timeout:
  assumes "tick_count p (n_tick w + 1 + k) > tick_count p (n_tick w) + pdMS_TO_TICKS cfg ms"
    and "\<forall>j\<le>k. cdone_level p (n_cdone w + j) \<noteq> (if v then 1 else 0)"
  shows "\<exists>w'. cdone_pin_wait cfg p v ms w = Some (ESP_ERR_TIMEOUT, w')"
proof -
  let ?w1 = "(emit [xTaskGetTickCount] w)\<lparr>n_tick := n_tick w + 1\<rparr>"
  have "tick_count p (n_tick ?w1 + k) > tick_count p (n_tick w) + pdMS_TO_TICKS cfg ms"
    using assms(1) by simp
  moreover have "\<forall>j\<le>k. cdone_level p (n_cdone ?w1 + j) \<noteq> (if v then 1 else 0)"
    using assms(2) by simp
  ultimately obtain w' where
    "cdone_poll p v (tick_count p (n_tick w) + pdMS_TO_TICKS cfg ms) ?w1 =
       Some (ESP_ERR_TIMEOUT, w')"
    using cdone_poll_timeout by blast
  then show ?thesis by (simp add: cdone_pin_wait_def Let_def)
qed

lemma wub_agree:
  assumes "spi_device_transmit_result p' (n_transmit w) = spi_device_transmit_result p (n_transmit w)"
  shows "write_update_block cfg p' b len w = write_update_block cfg p b len w"
  using assms by (simp add: write_update_block_def Let_def)

lemma wub_snd_agree:
  "snd (write_update_block cfg p' b len w) = snd (write_update_block cfg p b len w)"
  by (simp add: write_update_block_def Let_def)

lemma stream_loop_agree:
  assumes lbs: "1 \<le> LOADER_BUFFER_SIZE cfg"
    and "stream_loop cfg p rd remaining buffer ctx ret w = Some (r, b, c, w')"
    and "\<forall>i<n_transmit w'. spi_device_transmit_result p' i = spi_device_transmit_result p i"
  shows "stream_loop cfg p' rd remaining buffer ctx ret w = Some (r, b, c, w')"
  using assms(2,3)
proof (induction remaining arbitrary: buffer ctx ret w rule: less_induct)
  case (less remaining)
  show ?case
  proof (cases "remaining = 0")
    case True
    with less.prems(1) show ?thesis by (simp add: stream_loop_done)
  next
    case False
    define chunk where
      "chunk = (if remaining > LOADER_BUFFER_SIZE cfg then LOADER_BUFFER_SIZE cfg else remaining)"
    define got where "got = rd buffer chunk ctx"
    define sent where
      "sent = write_update_block cfg p (fst (snd got)) chunk (emit [source_read chunk chunk] w)"
    define sent' where
      "sent' = write_update_block cfg p' (fst (snd got)) chunk (emit [source_read chunk chunk] w)"
    from False lbs have chunk: "0 < chunk" "chunk \<le> remaining" "chunk \<le> LOADER_BUFFER_SIZE cfg"
      by (simp_all add: chunk_def)
    have sent_n: "n_transmit (snd sent) = n_transmit w + 1"
      using chunk by (simp add: sent_def wub_sent)
    show ?thesis
    proof (cases "fst got = chunk")
      case mismatch: False
      then have "stream_loop cfg p' rd remaining buffer ctx ret w =
          Some (ESP_FAIL, fst (snd got), snd (snd got), emit [source_read chunk (fst got)] w)"
        and "stream_loop cfg p rd remaining buffer ctx ret w =
          Some (ESP_FAIL, fst (snd got), snd (snd got), emit [source_read chunk (fst got)] w)"
        using False by (simp_all add: stream_loop_mismatch [OF _ chunk_def] got_def)
      with less.prems(1) show ?thesis by simp
    next
      case True
      show ?thesis
      proof (cases "fst sent = ESP_OK")
        case werr: False
        have "stream_loop cfg p rd remaining buffer ctx ret w =
            Some (fst sent, fst (snd got), snd (snd got), snd sent)"
          using False True werr
          by (simp add: stream_loop_write_error [OF _ chunk_def _ refl] got_def sent_def)
        with less.prems(1) have res: "r = fst sent" "b = fst (snd got)" "c = snd (snd got)"
          "w' = snd sent"
          by simp_all
        with less.prems(2) sent_n have "spi_device_transmit_result p' (n_transmit w) =
            spi_device_transmit_result p (n_transmit w)"
          by simp
        then have "sent' = sent"
          unfolding sent'_def sent_def by (intro wub_agree) simp
        with werr have "stream_loop cfg p' rd remaining buffer ctx ret w =
            Some (fst sent, fst (snd got), snd (snd got), snd sent)"
          using False True
          by (simp add: stream_loop_write_error [OF _ chunk_def _ refl] got_def sent'_def)
        with res show ?thesis by simp
      next
        case ok: True
        have eq: "stream_loop cfg p rd remaining buffer ctx ret w =
            stream_loop cfg p rd (remaining - chunk) (fst (snd got)) (snd (snd got)) ESP_OK
              (snd sent)"
          using False True ok
          by (simp add: stream_loop_next [OF _ chunk_def _ refl] got_def sent_def)
        with less.prems(1) have run:
          "stream_loop cfg p rd (remaining - chunk) (fst (snd got)) (snd (snd got)) ESP_OK
             (snd sent) = Some (r, b, c, w')"
          by simp
        from stream_loop_total [OF lbs, of p rd "remaining - chunk" "fst (snd got)"
            "snd (snd got)" ESP_OK "snd sent"] run
        have "n_transmit (snd sent) \<le> n_transmit w'" by auto
        with less.prems(2) sent_n have "spi_device_transmit_result p' (n_transmit w) =
            spi_device_transmit_result p (n_transmit w)"
          by simp
        then have same: "sent' = sent"
          unfolding sent'_def sent_def by (intro wub_agree) simp
        from chunk have "remaining - chunk < remaining" by simp
        from less.IH [OF this run less.prems(2)]
        have "stream_loop cfg p' rd (remaining - chunk) (fst (snd got)) (snd (snd got)) ESP_OK
                (snd sent) = Some (r, b, c, w')" .
        moreover have "stream_loop cfg p' rd remaining buffer ctx ret w =
            stream_loop cfg p' rd (remaining - chunk) (fst (snd got)) (snd (snd got)) ESP_OK
              (snd sent')"
          using False True ok same
          by (simp add: stream_loop_next [OF _ chunk_def _ refl] got_def sent'_def)
        ultimately show ?thesis using same by simp
      qed
    qed
  qed
qed

lemma cdone_pin_wait_agree:
  assumes "cdone_pin_wait cfg p v ms w = Some y"
    and "cdone_level p' = cdone_level p" "tick_count p' = tick_count p"
  shows "cdone_pin_wait cfg p' v ms w = Some y"
  using assms cdone_poll_agree [of p v _ _ y p']
  by (simp add: cdone_pin_wait_def Let_def)

lemma load_returns:
  assumes "reaches_completion cfg p w0"
    and "tick_count p (n_tick w0 + 1 + k) > tick_count p (n_tick w0) + pdMS_TO_TICKS cfg 100 \<or>
         cdone_level p (n_cdone w0 + k) = 1"
  shows "\<exists>ret w'. fpga_loader_load cfg p source w0 = Some (ret, w')"
proof -
  let ?zeros = "replicate (LOADER_BUFFER_SIZE cfg) (0 :: byte)"
  define w9 where "w9 = w0\<lparr>calls := calls w0 @ prologue cfg,
                               n_transmit := Suc (n_transmit w0),
                               fpga_update_device := Some (spi_bus_add_device_handle p)\<rparr>"
  from assms(1) have lbs: "1 \<le> LOADER_BUFFER_SIZE cfg"
    by (simp add: reaches_completion_def)
  from stream_loop_total [OF lbs, of p "read_src source" "size_src source"
      "map (heap_garbage p) [0..<LOADER_BUFFER_SIZE cfg]" "ctx_src source" ESP_OK w9]
  obtain r b c w10 where
    loop: "stream_loop cfg p (read_src source) (size_src source)
             (map (heap_garbage p) [0..<LOADER_BUFFER_SIZE cfg]) (ctx_src source) ESP_OK w9 =
           Some (r, b, c, w10)"
    and counters: "n_cdone w10 = n_cdone w9" "n_tick w10 = n_tick w9"
    by blast
  let ?w12 = "snd (write_update_block cfg p ?zeros 13
                     (emit [gpio_set_level CONFIG_FPGA_CS_GPIO 1] w10))"
  let ?w1 = "(emit [xTaskGetTickCount] ?w12)\<lparr>n_tick := n_tick ?w12 + 1\<rparr>"
  have "tick_count p (n_tick ?w1 + k) > tick_count p (n_tick ?w12) + pdMS_TO_TICKS cfg 100 \<or>
        cdone_level p (n_cdone ?w1 + k) = (if True then 1 else 0)"
    using assms(2) counters by (simp add: w9_def)
  from cdone_poll_returns [OF this] obtain y where
    "cdone_pin_wait cfg p True 100 ?w12 = Some y"
    by (auto simp: cdone_pin_wait_def Let_def)
  with loop show ?thesis
    by (cases y) (simp add: load_reached [OF assms(1)] w9_def cleanup_bus_eq)
qed

text \<open>
  A run that reaches Step 8 with the deadline at \<open>0xFFFFFFFF\<close> and CDONE never high does
  not return.
\<close>

lemma load_hangs:
  assumes "reaches_completion cfg p w0"
    and "tick_count p (n_tick w0) + pdMS_TO_TICKS cfg 100 = - 1"
    and "\<forall>j. cdone_level p j \<noteq> 1"
  shows "fpga_loader_load cfg p source w0 = None"
proof -
  let ?zeros = "replicate (LOADER_BUFFER_SIZE cfg) (0 :: byte)"
  define w9 where "w9 = w0\<lparr>calls := calls w0 @ prologue cfg,
                               n_transmit := Suc (n_transmit w0),
                               fpga_update_device := Some (spi_bus_add_device_handle p)\<rparr>"
  from assms(1) have lbs: "1 \<le> LOADER_BUFFER_SIZE cfg"
    by (simp add: reaches_completion_def)
  from stream_loop_total [OF lbs, of p "read_src source" "size_src source"
      "map (heap_garbage p) [0..<LOADER_BUFFER_SIZE cfg]" "ctx_src source" ESP_OK w9]
  obtain r b c w10 where
    loop: "stream_loop cfg p (read_src source) (size_src source)
             (map (heap_garbage p) [0..<LOADER_BUFFER_SIZE cfg]) (ctx_src source) ESP_OK w9 =
           Some (r, b, c, w10)"
    and counters: "n_tick w10 = n_tick w9"
    by blast
  let ?w12 = "snd (write_update_block cfg p ?zeros 13
                     (emit [gpio_set_level CONFIG_FPGA_CS_GPIO 1] w10))"
  have "n_tick ?w12 = n_tick w0" using counters by (simp add: w9_def)
  with assms(2) have "tick_count p (n_tick ?w12) + pdMS_TO_TICKS cfg 100 = - 1" by simp
  moreover have "\<forall>j. cdone_level p j \<noteq> (if True then 1 else 0)" using assms(3) by simp
  ultimately have "cdone_pin_wait cfg p True 100 ?w12 = None"
    using cdone_poll_hangs [of p True] by (simp add: cdone_pin_wait_def Let_def)
  with loop show ?thesis by (simp add: load_reached [OF assms(1)] w9_def)
qed

text \<open>
  Once the buffer is allocated, what \<open>fpga_loader_load\<close> returns is what \<open>cdone_pin_wait\<close>
  returned, whatever happened in the streaming loop: \<open>ESP_FAIL\<close> of a short read and the
  error of a failed transmission are overwritten in Step 8.
\<close>

lemma load_result_is_poll_result:
  assumes "reaches_completion cfg p w0"
    and "fpga_loader_load cfg p source w0 = Some (ret, w')"
  shows "ret = ESP_OK \<or> ret = ESP_ERR_TIMEOUT"
  using load_completion_log [OF assms] by blast

section \<open>Runs, evaluated\<close>

lemmas run_defs =
  fpga_loader_load_def stream_loop.simps cdone_poll.simps cdone_pin_wait_def
  write_update_block_def LOADER_BUFFER_SIZE_def emit_def update_spi_device_add_def
  reset_pin_set_def cleanup_bus_def cleanup_device_def update_spi_device_remove_def Let_def
  cfg16_def healthy_def boot_def prologue_def hand_off_def

lemma truncated_run:
  "fpga_loader_load cfg16 healthy truncated boot = Some (ESP_OK, truncated_end)"
  by (simp add: run_defs truncated_def file_read_def truncated_end_def truncated_log_def
        truncated_rest_def upt_rec)

lemma image20_run:
  "fpga_loader_load cfg16 healthy image20 boot = Some (ESP_OK, image20_end)"
  by (simp add: run_defs image20_def rom_read_def image20_end_def image20_streamed_def upt_rec)

lemma timeout_run:
  "fpga_loader_load cfg16 cdone_low image20 boot = Some (ESP_ERR_TIMEOUT, timeout_end)"
  by (simp add: run_defs cdone_low_def image20_def rom_read_def timeout_end_def
        image20_streamed_def upt_rec)

lemma late_boot_hangs: "fpga_loader_load cfg16 late_boot truncated boot = None"
proof (rule load_hangs)
  show "reaches_completion cfg16 late_boot boot"
    by (simp add: reaches_completion_def late_boot_def run_defs)
  show "tick_count late_boot (n_tick boot) + pdMS_TO_TICKS cfg16 100 = - 1"
    by (simp add: late_boot_def cfg16_def boot_def)
  show "\<forall>j. cdone_level late_boot j \<noteq> 1"
    by (simp add: late_boot_def)
qed

lemma starved_run:
  "fpga_loader_load cfg4 cdone_low image4 boot = Some (ESP_ERR_TIMEOUT, starved_end)"
  by (simp add: run_defs cfg4_def cdone_low_def image4_def rom_read_def starved_end_def upt_rec)

lemma small_buffer_run:
  "fpga_loader_load cfg8 healthy image4 boot = Some (ESP_OK, small_buffer_end)"
  by (simp add: run_defs cfg8_def image4_def rom_read_def small_buffer_end_def upt_rec)

lemma empty_file_run:
  "fpga_loader_load_from_file cfg16 with_empty_file ''/spiffs/top.bin'' boot =
     Some (ESP_OK, empty_file_end)"
  by (simp add: fpga_loader_load_from_file_def with_empty_file_def run_defs empty_file_end_def
        upt_rec)

lemma healthy_reaches_completion: "reaches_completion cfg16 healthy boot"
  by (simp add: reaches_completion_def run_defs)

lemma cdone_low_reaches_completion: "reaches_completion cfg16 cdone_low boot"
  by (simp add: reaches_completion_def cdone_low_def run_defs)

section \<open>A read that comes back short\<close>

lemma poll_calls_no_transmission:
  "list_all is_poll_call cs \<Longrightarrow> transmissions cs = []"
  by (induction cs rule: transmissions.induct) simp_all

lemma padding_transmissions:
  "set (transmissions (padding cfg len)) \<subseteq> {(len * 8, replicate len 0)}"
  by (simp add: padding_def)

lemma hand_off_no_transmission: "transmissions hand_off = []"
  by (simp add: hand_off_def)

lemma read_mismatch_log:
  assumes "fpga_loader_load cfg p source w0 = Some (ret, w')"
    and "after_read_mismatch (new_calls w0 w') = Some rest"
  shows "\<exists>poll. rest = gpio_set_level CONFIG_FPGA_CS_GPIO 1 # padding cfg 13 @ poll @
                        padding cfg 7 @ hand_off \<and>
                list_all is_poll_call poll"
proof (cases "reaches_completion cfg p w0")
  case True
  from load_completion_log [OF True assms(1)] obtain stream poll where
    log: "calls w' = calls w0 @ prologue cfg @ stream @
                        gpio_set_level CONFIG_FPGA_CS_GPIO 1 # padding cfg 13 @ poll @
                        padding cfg 7 @ hand_off"
    and stream: "after_read_mismatch stream = None \<or> after_read_mismatch stream = Some []"
    and poll: "list_all is_poll_call poll"
    by blast
  let ?tail = "gpio_set_level CONFIG_FPGA_CS_GPIO 1 # padding cfg 13 @ poll @
               padding cfg 7 @ hand_off"
  have tail: "after_read_mismatch ?tail = None"
    using poll by (simp add: after_read_mismatch_append poll_calls_no_read)
  have "new_calls w0 w' = prologue cfg @ stream @ ?tail" using log by simp
  with assms(2) have "after_read_mismatch (prologue cfg @ stream @ ?tail) = Some rest"
    by simp
  with stream tail have "rest = ?tail"
    by (auto simp: after_read_mismatch_append)
  with poll show ?thesis by blast
next
  case False
  from load_early_exit [OF False, of source] assms show ?thesis by auto
qed

text \<open>
  C1, as the code has it. Let the polling of CDONE come to an end (some sample reads 1, or
  some read of the tick counter is past the deadline). Then \<open>fpga_loader_load\<close> returns,
  and if a read of the streaming loop did not deliver the number of bytes requested, the
  chunk was not transmitted and no further chunk was read or transmitted: what the log
  holds after the failed read is the raising of chip-select, the Completion padding, the
  polling of CDONE, the Activation padding and the hand-off, and nothing else.
  (\<open>padding cfg n\<close> is the one transmission of \<open>n\<close> zero bytes, between taking and giving
  the semaphore, that \<open>write_update_block\<close> makes when the buffer holds \<open>n\<close> bytes, and
  nothing when it does not.) So the only transmissions after the failed read are blocks
  of 13 and of 7 zero bytes. Nothing is said of the value returned.
\<close>

theorem read_mismatch_ends_streaming:
  assumes "tick_count p (n_tick w0 + 1 + k) > tick_count p (n_tick w0) + pdMS_TO_TICKS cfg 100 \<or>
           cdone_level p (n_cdone w0 + k) = 1"
  shows "\<exists>ret w'.
           fpga_loader_load cfg p source w0 = Some (ret, w') \<and>
           (\<forall>rest. after_read_mismatch (new_calls w0 w') = Some rest \<longrightarrow>
              (\<exists>poll. rest = gpio_set_level CONFIG_FPGA_CS_GPIO 1 # padding cfg 13 @ poll @
                               padding cfg 7 @ hand_off \<and>
                      list_all is_poll_call poll) \<and>
              set (transmissions rest) \<subseteq> {(104, replicate 13 0), (56, replicate 7 0)})"
proof -
  have "\<exists>ret w'. fpga_loader_load cfg p source w0 = Some (ret, w')"
  proof (cases "reaches_completion cfg p w0")
    case True
    then show ?thesis using assms by (rule load_returns)
  next
    case False
    from load_early_exit [OF False, of source] show ?thesis by blast
  qed
  then obtain ret w' where run: "fpga_loader_load cfg p source w0 = Some (ret, w')"
    by blast
  have "(\<exists>poll. rest = gpio_set_level CONFIG_FPGA_CS_GPIO 1 # padding cfg 13 @ poll @
                               padding cfg 7 @ hand_off \<and>
                      list_all is_poll_call poll) \<and>
              set (transmissions rest) \<subseteq> {(104, replicate 13 0), (56, replicate 7 0)}"
    if short: "after_read_mismatch (new_calls w0 w') = Some rest" for rest
  proof -
    from read_mismatch_log [OF run short] obtain poll where
      rest: "rest = gpio_set_level CONFIG_FPGA_CS_GPIO 1 # padding cfg 13 @ poll @
                      padding cfg 7 @ hand_off"
      and poll: "list_all is_poll_call poll"
      by blast
    have "set (transmissions rest) \<subseteq> {(104, replicate 13 0), (56, replicate 7 0)}"
      using padding_transmissions [of cfg 13] padding_transmissions [of cfg 7]
      by (simp add: rest poll_calls_no_transmission [OF poll] hand_off_no_transmission) blast
    with rest poll show ?thesis by blast
  qed
  with run show ?thesis by blast
qed

theorem read_mismatch_ends_streaming_witness:
  "fpga_loader_load cfg16 healthy truncated boot = Some (ESP_OK, truncated_end) \<and>
   after_read_mismatch (new_calls boot truncated_end) = Some truncated_rest \<and>
   (\<exists>poll. truncated_rest =
             gpio_set_level CONFIG_FPGA_CS_GPIO 1 # padding cfg16 13 @ poll @
             padding cfg16 7 @ hand_off \<and>
           list_all is_poll_call poll) \<and>
   set (transmissions truncated_rest) \<subseteq> {(104, replicate 13 0), (56, replicate 7 0)}"
proof -
  have ends: "tick_count healthy (n_tick boot + 1 + 0) >
                tick_count healthy (n_tick boot) + pdMS_TO_TICKS cfg16 100 \<or>
              cdone_level healthy (n_cdone boot + 0) = 1"
    by (simp add: healthy_def)
  have short: "after_read_mismatch (new_calls boot truncated_end) = Some truncated_rest"
    by (simp add: new_calls_def boot_def truncated_end_def truncated_log_def)
  from read_mismatch_ends_streaming [OF ends, of truncated] truncated_run short
  show ?thesis by auto
qed

text \<open>
  The claim as it is written fails on the run of the truncated source: the second read
  asks for 4 bytes and gets 2, CDONE is high when it is polled, and the loader returns
  \<open>ESP_OK\<close>, not \<open>ESP_FAIL\<close>: \<open>ret\<close> is assigned again from \<open>cdone_pin_wait\<close> after the
  loop. After the short read two transmissions are still issued, the paddings of 13 and
  of 7 zero bytes.
\<close>

theorem read_mismatch_counterexample:
  "fpga_loader_load cfg16 healthy truncated boot = Some (ESP_OK, truncated_end) \<and>
   new_calls boot truncated_end = truncated_log \<and>
   after_read_mismatch truncated_log = Some truncated_rest \<and>
   transmissions truncated_rest = [(104, replicate 13 0), (56, replicate 7 0)]"
  using truncated_run
  by (simp add: new_calls_def boot_def truncated_end_def truncated_log_def truncated_rest_def)

section \<open>CDONE never goes high\<close>

lemma timeout_log:
  assumes "reaches_completion cfg p w0"
    and "tick_count p (n_tick w0 + 1 + k) > tick_count p (n_tick w0) + pdMS_TO_TICKS cfg 100"
    and "\<forall>j\<le>k. cdone_level p (n_cdone w0 + j) \<noteq> 1"
  shows "\<exists>w' before.
           fpga_loader_load cfg p source w0 = Some (ESP_ERR_TIMEOUT, w') \<and>
           new_calls w0 w' = before @ padding cfg 7 @ hand_off \<and>
           fpga_update_device w' = None"
proof -
  let ?zeros = "replicate (LOADER_BUFFER_SIZE cfg) (0 :: byte)"
  define w9 where "w9 = w0\<lparr>calls := calls w0 @ prologue cfg,
                               n_transmit := Suc (n_transmit w0),
                               fpga_update_device := Some (spi_bus_add_device_handle p)\<rparr>"
  from assms(1) have lbs: "1 \<le> LOADER_BUFFER_SIZE cfg"
    by (simp add: reaches_completion_def)
  from stream_loop_total [OF lbs, of p "read_src source" "size_src source"
      "map (heap_garbage p) [0..<LOADER_BUFFER_SIZE cfg]" "ctx_src source" ESP_OK w9]
  obtain r b c w10 where
    loop: "stream_loop cfg p (read_src source) (size_src source)
             (map (heap_garbage p) [0..<LOADER_BUFFER_SIZE cfg]) (ctx_src source) ESP_OK w9 =
           Some (r, b, c, w10)"
    and counters: "n_cdone w10 = n_cdone w9" "n_tick w10 = n_tick w9"
    by blast
  let ?w12 = "snd (write_update_block cfg p ?zeros 13
                     (emit [gpio_set_level CONFIG_FPGA_CS_GPIO 1] w10))"
  have at12: "n_cdone ?w12 = n_cdone w0" "n_tick ?w12 = n_tick w0"
    using counters by (simp_all add: w9_def)
  have "tick_count p (n_tick ?w12 + 1 + k) >
          tick_count p (n_tick ?w12) + pdMS_TO_TICKS cfg 100"
    using assms(2) by (simp only: at12)
  moreover have "\<forall>j\<le>k. cdone_level p (n_cdone ?w12 + j) \<noteq> (if True then 1 else 0)"
    using assms(3) by (simp only: at12) simp
  ultimately obtain w13 where
    wait: "cdone_pin_wait cfg p True 100 ?w12 = Some (ESP_ERR_TIMEOUT, w13)"
    using cdone_pin_wait_timeout by blast
  have "fpga_loader_load cfg p source w0 =
      Some (cleanup_bus p ESP_ERR_TIMEOUT
              (emit [gpio_set_level CONFIG_FPGA_CS_GPIO 1,
                     gpio_matrix_out CONFIG_FPGA_CS_GPIO FSPICS0_OUT_IDX,
                     heap_caps_free]
                 (snd (write_update_block cfg p ?zeros 7 w13))))"
    using loop wait by (simp add: load_reached [OF assms(1)] w9_def)
  then obtain w' where run: "fpga_loader_load cfg p source w0 = Some (ESP_ERR_TIMEOUT, w')"
    by (simp add: cleanup_bus_eq)
  from load_completion_log [OF assms(1) run] obtain stream poll where
    log: "calls w' = calls w0 @ prologue cfg @ stream @
                        gpio_set_level CONFIG_FPGA_CS_GPIO 1 # padding cfg 13 @ poll @
                        padding cfg 7 @ hand_off"
    and dev: "fpga_update_device w' = None"
    by blast
  have "new_calls w0 w' =
      (prologue cfg @ stream @ gpio_set_level CONFIG_FPGA_CS_GPIO 1 # padding cfg 13 @ poll) @
      padding cfg 7 @ hand_off"
    using log by simp
  with run dev show ?thesis by blast
qed

text \<open>
  C2, as the code has it. The run has reached Step 8 and the buffer holds at least 7
  bytes. Time runs out with the pin low: at the \<open>k\<close>-th round of the loop the tick counter
  reads more than the entry tick plus 100 ms worth of ticks (as numbers: the counter has
  not wrapped since entry), and every sample of CDONE up to then is not 1. Then
  \<open>fpga_loader_load\<close> returns, with \<open>ESP_ERR_TIMEOUT\<close>, and its log ends with the
  Activation padding of 56 zero clocks followed by the hand-off: chip-select back to
  \<open>FSPICS0_OUT_IDX\<close>, the buffer freed, the bus released, the device removed.
\<close>

theorem timeout_still_hands_off:
  assumes "reaches_completion cfg p w0"
    and "7 \<le> LOADER_BUFFER_SIZE cfg"
    and "unat (tick_count p (n_tick w0)) + unat (pdMS_TO_TICKS cfg 100)
           < unat (tick_count p (n_tick w0 + 1 + k))"
    and "\<forall>j\<le>k. cdone_level p (n_cdone w0 + j) \<noteq> 1"
  shows "\<exists>w' before.
           fpga_loader_load cfg p source w0 = Some (ESP_ERR_TIMEOUT, w') \<and>
           new_calls w0 w' =
             before @
             [xSemaphoreTake, spi_device_transmit 56 (replicate 7 0), xSemaphoreGive,
              gpio_set_level CONFIG_FPGA_CS_GPIO 1,
              gpio_matrix_out CONFIG_FPGA_CS_GPIO FSPICS0_OUT_IDX,
              heap_caps_free,
              spi_device_release_bus,
              spi_bus_remove_device] \<and>
           fpga_update_device w' = None"
proof -
  from assms(3) have "tick_count p (n_tick w0 + 1 + k) >
      tick_count p (n_tick w0) + pdMS_TO_TICKS cfg 100"
    by (rule deadline_passed)
  from timeout_log [OF assms(1) this assms(4), of source]
  obtain w' before where
    run: "fpga_loader_load cfg p source w0 = Some (ESP_ERR_TIMEOUT, w')"
    and log: "new_calls w0 w' = before @ padding cfg 7 @ hand_off"
    and dev: "fpga_update_device w' = None"
    by blast
  from assms(2) log have "new_calls w0 w' =
             before @
             [xSemaphoreTake, spi_device_transmit 56 (replicate 7 0), xSemaphoreGive,
              gpio_set_level CONFIG_FPGA_CS_GPIO 1,
              gpio_matrix_out CONFIG_FPGA_CS_GPIO FSPICS0_OUT_IDX,
              heap_caps_free,
              spi_device_release_bus,
              spi_bus_remove_device]"
    by (simp add: padding_def hand_off_def)
  with run dev show ?thesis by blast
qed

theorem timeout_still_hands_off_witness:
  "fpga_loader_load cfg16 cdone_low image20 boot = Some (ESP_ERR_TIMEOUT, timeout_end) \<and>
   (\<exists>before.
      new_calls boot timeout_end =
        before @
        [xSemaphoreTake, spi_device_transmit 56 (replicate 7 0), xSemaphoreGive,
         gpio_set_level CONFIG_FPGA_CS_GPIO 1,
         gpio_matrix_out CONFIG_FPGA_CS_GPIO FSPICS0_OUT_IDX,
         heap_caps_free,
         spi_device_release_bus,
         spi_bus_remove_device]) \<and>
   fpga_update_device timeout_end = None"
proof -
  have big: "7 \<le> LOADER_BUFFER_SIZE cfg16"
    by (simp add: LOADER_BUFFER_SIZE_def cfg16_def)
  have late: "unat (tick_count cdone_low (n_tick boot)) + unat (pdMS_TO_TICKS cfg16 100)
                < unat (tick_count cdone_low (n_tick boot + 1 + 1))"
    by (simp add: cdone_low_def healthy_def boot_def cfg16_def)
  have low: "\<forall>j\<le>1. cdone_level cdone_low (n_cdone boot + j) \<noteq> 1"
    by (simp add: cdone_low_def healthy_def)
  from timeout_still_hands_off [OF cdone_low_reaches_completion big late low, of image20] timeout_run
  show ?thesis by auto
qed

text \<open>
  The claim as it is written fails on a build with a 4-byte buffer: the run reaches Step
  8, the pin stays low, the loader returns \<open>ESP_ERR_TIMEOUT\<close>, and its only transmissions
  are the dummy byte and the one chunk. \<open>write_update_block\<close> refuses the 7-byte block, so
  no Activation padding goes out.
\<close>

theorem timeout_counterexample:
  "reaches_completion cfg4 cdone_low boot \<and>
   fpga_loader_load cfg4 cdone_low image4 boot = Some (ESP_ERR_TIMEOUT, starved_end) \<and>
   transmissions (new_calls boot starved_end) = [(8, [0]), (32, [0, 1, 2, 3])]"
  using starved_run
  by (simp add: reaches_completion_def cfg4_def cdone_low_def run_defs new_calls_def
        starved_end_def)

section \<open>Cleanup\<close>

text \<open>
  C5. Whenever \<open>fpga_loader_load\<close> returns after the device was registered and the bus
  acquired, the last two calls of the run are the release of the bus and the removal of
  the device, the handle \<open>fpga_update_device\<close> is \<open>NULL\<close> again, and if the buffer was
  allocated, the call just before the release of the bus is \<open>heap_caps_free\<close>.
\<close>

theorem cleanup_on_every_exit:
  assumes "fpga_loader_load cfg p source w0 = Some (ret, w')"
    and "spi_bus_add_device_result p = ESP_OK"
    and "spi_device_acquire_bus_result p = ESP_OK"
  shows "\<exists>body. new_calls w0 w' = body @ [spi_device_release_bus, spi_bus_remove_device] \<and>
           (heap_caps_malloc (LOADER_BUFFER_SIZE cfg) True \<in> set body \<longrightarrow>
              (\<exists>b. body = b @ [heap_caps_free])) \<and>
           fpga_update_device w' = None"
proof (cases "reaches_completion cfg p w0")
  case True
  from load_completion_log [OF True assms(1)] obtain stream poll where
    log: "calls w' = calls w0 @ prologue cfg @ stream @
                        gpio_set_level CONFIG_FPGA_CS_GPIO 1 # padding cfg 13 @ poll @
                        padding cfg 7 @ hand_off"
    and dev: "fpga_update_device w' = None"
    by blast
  let ?b = "prologue cfg @ stream @ gpio_set_level CONFIG_FPGA_CS_GPIO 1 # padding cfg 13 @ poll @
            padding cfg 7 @ [gpio_set_level CONFIG_FPGA_CS_GPIO 1,
                             gpio_matrix_out CONFIG_FPGA_CS_GPIO FSPICS0_OUT_IDX]"
  have "new_calls w0 w' = (?b @ [heap_caps_free]) @ [spi_device_release_bus, spi_bus_remove_device]"
    using log by (simp add: hand_off_def)
  with dev show ?thesis by blast
next
  case False
  from load_early_exit [OF False, of source] assms show ?thesis by auto
qed

theorem cleanup_on_every_exit_witness:
  "fpga_loader_load cfg16 healthy truncated boot = Some (ESP_OK, truncated_end) \<and>
   (\<exists>body. new_calls boot truncated_end =
             body @ [spi_device_release_bus, spi_bus_remove_device] \<and>
           (heap_caps_malloc (LOADER_BUFFER_SIZE cfg16) True \<in> set body \<longrightarrow>
              (\<exists>b. body = b @ [heap_caps_free])) \<and>
           fpga_update_device truncated_end = None)"
proof -
  have "spi_bus_add_device_result healthy = ESP_OK"
    and "spi_device_acquire_bus_result healthy = ESP_OK"
    by (simp_all add: healthy_def)
  from cleanup_on_every_exit [OF truncated_run this] truncated_run show ?thesis by blast
qed

section \<open>Success\<close>

text \<open>
  C6. Whenever \<open>fpga_loader_load\<close> returns \<open>ESP_OK\<close>, its log ends with a sample of CDONE
  that read 1, then the Activation padding, then the hand-off: the pin was seen high
  before the Activation padding went out.
\<close>

theorem success_after_cdone_high:
  assumes "fpga_loader_load cfg p source w0 = Some (ESP_OK, w')"
  shows "\<exists>before. new_calls w0 w' =
           before @ gpio_get_level CONFIG_FPGA_CDONE_GPIO 1 # padding cfg 7 @ hand_off"
proof (cases "reaches_completion cfg p w0")
  case True
  from load_completion_log [OF True assms] obtain stream poll before where
    log: "calls w' = calls w0 @ prologue cfg @ stream @
                        gpio_set_level CONFIG_FPGA_CS_GPIO 1 # padding cfg 13 @ poll @
                        padding cfg 7 @ hand_off"
    and poll: "poll = before @ [gpio_get_level CONFIG_FPGA_CDONE_GPIO 1]"
    by auto
  have "new_calls w0 w' =
      (prologue cfg @ stream @ gpio_set_level CONFIG_FPGA_CS_GPIO 1 # padding cfg 13 @ before) @
      gpio_get_level CONFIG_FPGA_CDONE_GPIO 1 # padding cfg 7 @ hand_off"
    using log poll by simp
  then show ?thesis by blast
next
  case False
  from load_early_exit [OF False, of source] assms show ?thesis by auto
qed

theorem success_after_cdone_high_witness:
  "fpga_loader_load cfg16 healthy image20 boot = Some (ESP_OK, image20_end) \<and>
   (\<exists>before. new_calls boot image20_end =
               before @ gpio_get_level CONFIG_FPGA_CDONE_GPIO 1 # padding cfg16 7 @ hand_off)"
  using success_after_cdone_high [OF image20_run] image20_run by blast

section \<open>Padding\<close>

text \<open>
  C7, as the code has it. The buffer holds at least 13 bytes, the run gets as far as Step
  8, and the polling comes to an end: some sample of CDONE reads 1, or some read of the
  tick counter is past the deadline. Then \<open>fpga_loader_load\<close> returns, with \<open>ESP_OK\<close> or \<open>ESP_ERR_TIMEOUT\<close>, and
  the log of the run is: the prologue, the calls of the streaming loop, chip-select
  raised, one transmission of 104 bits of zeros, the calls of the polling, one
  transmission of 56 bits of zeros, the hand-off. No sample of CDONE is taken before the
  104 clocks have gone out, and the 56 clocks follow the polling whichever way it ended.
\<close>

theorem padding_around_the_poll:
  assumes "reaches_completion cfg p w0"
    and "13 \<le> LOADER_BUFFER_SIZE cfg"
    and "tick_count p (n_tick w0 + 1 + k) > tick_count p (n_tick w0) + pdMS_TO_TICKS cfg 100 \<or>
         cdone_level p (n_cdone w0 + k) = 1"
  shows "\<exists>ret w' streamed poll.
           fpga_loader_load cfg p source w0 = Some (ret, w') \<and>
           new_calls w0 w' =
             prologue cfg @ streamed @
             [gpio_set_level CONFIG_FPGA_CS_GPIO 1,
              xSemaphoreTake, spi_device_transmit 104 (replicate 13 0), xSemaphoreGive] @
             poll @
             [xSemaphoreTake, spi_device_transmit 56 (replicate 7 0), xSemaphoreGive] @
             hand_off \<and>
           list_all is_stream_call streamed \<and> list_all is_poll_call poll \<and>
           (\<forall>level. gpio_get_level CONFIG_FPGA_CDONE_GPIO level \<notin> set (prologue cfg @ streamed)) \<and>
           (ret = ESP_OK \<or> ret = ESP_ERR_TIMEOUT)"
proof -
  from load_returns [OF assms(1,3), of source] obtain ret w' where
    run: "fpga_loader_load cfg p source w0 = Some (ret, w')"
    by blast
  from load_completion_log [OF assms(1) run] obtain stream poll where
    log: "calls w' = calls w0 @ prologue cfg @ stream @
                        gpio_set_level CONFIG_FPGA_CS_GPIO 1 # padding cfg 13 @ poll @
                        padding cfg 7 @ hand_off"
    and kinds: "list_all is_stream_call stream" "list_all is_poll_call poll"
    and ret: "ret = ESP_OK \<or> ret = ESP_ERR_TIMEOUT"
    by blast
  from assms(2) have "padding cfg 13 =
      [xSemaphoreTake, spi_device_transmit 104 (replicate 13 0), xSemaphoreGive]"
    and "padding cfg 7 =
      [xSemaphoreTake, spi_device_transmit 56 (replicate 7 0), xSemaphoreGive]"
    by (simp_all add: padding_def)
  with log have "new_calls w0 w' =
             prologue cfg @ stream @
             [gpio_set_level CONFIG_FPGA_CS_GPIO 1,
              xSemaphoreTake, spi_device_transmit 104 (replicate 13 0), xSemaphoreGive] @
             poll @
             [xSemaphoreTake, spi_device_transmit 56 (replicate 7 0), xSemaphoreGive] @
             hand_off"
    by simp
  moreover have "\<forall>level. gpio_get_level CONFIG_FPGA_CDONE_GPIO level \<notin> set (prologue cfg @ stream)"
    using kinds(1) by (auto simp: prologue_def list_all_iff)
  ultimately show ?thesis using run kinds ret by blast
qed

theorem padding_around_the_poll_witness:
  "fpga_loader_load cfg16 cdone_low image20 boot = Some (ESP_ERR_TIMEOUT, timeout_end) \<and>
   (\<exists>ret w' streamed poll.
      fpga_loader_load cfg16 cdone_low image20 boot = Some (ret, w') \<and>
      new_calls boot w' =
        prologue cfg16 @ streamed @
        [gpio_set_level CONFIG_FPGA_CS_GPIO 1,
         xSemaphoreTake, spi_device_transmit 104 (replicate 13 0), xSemaphoreGive] @
        poll @
        [xSemaphoreTake, spi_device_transmit 56 (replicate 7 0), xSemaphoreGive] @
        hand_off \<and>
      list_all is_stream_call streamed \<and> list_all is_poll_call poll)"
proof -
  have big: "13 \<le> LOADER_BUFFER_SIZE cfg16"
    by (simp add: LOADER_BUFFER_SIZE_def cfg16_def)
  have ends: "tick_count cdone_low (n_tick boot + 1 + 1) >
                tick_count cdone_low (n_tick boot) + pdMS_TO_TICKS cfg16 100 \<or>
              cdone_level cdone_low (n_cdone boot + 1) = 1"
    by (simp add: cdone_low_def healthy_def boot_def cfg16_def)
  from padding_around_the_poll [OF cdone_low_reaches_completion big ends, of image20]
    timeout_run
  show ?thesis by blast
qed

text \<open>
  The claim as it is written fails on a build with an 8-byte buffer: the run reaches Step
  8 and returns \<open>ESP_OK\<close>, and its transmissions are the dummy byte, the one chunk and the
  56 clocks of the Activation padding. \<open>write_update_block\<close> refuses the 13-byte block, so
  no clock goes out between the last chunk and the polling of CDONE.
\<close>

theorem padding_counterexample:
  "reaches_completion cfg8 healthy boot \<and>
   fpga_loader_load cfg8 healthy image4 boot = Some (ESP_OK, small_buffer_end) \<and>
   transmissions (new_calls boot small_buffer_end) =
     [(8, [0]), (32, [0, 1, 2, 3]), (56, replicate 7 0)]"
  using small_buffer_run
  by (simp add: reaches_completion_def cfg8_def run_defs new_calls_def small_buffer_end_def)

text \<open>
  C10. The run gets as far as Step 8 and returns. Its last transmissions are the paddings
  that \<open>write_update_block\<close> accepted (two when the buffer holds 13 bytes, see above);
  transmissions are numbered by \<open>n_transmit\<close>. Replace the results of the transmissions by
  any \<open>f\<close> that agrees with them on every transmission of the run before the paddings:
  \<open>fpga_loader_load\<close> returns the same value, in the same state. Whether a padding
  transmission fails or not makes no difference to what is returned.
\<close>

theorem padding_results_discarded:
  assumes reach: "reaches_completion cfg p w0"
    and run: "fpga_loader_load cfg p source w0 = Some (ret, w')"
    and agree: "\<forall>i. i + length (transmissions (padding cfg 13 @ padding cfg 7)) < n_transmit w'
                  \<longrightarrow> f i = spi_device_transmit_result p i"
  shows "fpga_loader_load cfg (p\<lparr>spi_device_transmit_result := f\<rparr>) source w0 = Some (ret, w')"
proof -
  let ?p' = "p\<lparr>spi_device_transmit_result := f\<rparr>"
  let ?zeros = "replicate (LOADER_BUFFER_SIZE cfg) (0 :: byte)"
  define w9 where "w9 = w0\<lparr>calls := calls w0 @ prologue cfg,
                               n_transmit := Suc (n_transmit w0),
                               fpga_update_device := Some (spi_bus_add_device_handle p)\<rparr>"
  from reach have lbs: "1 \<le> LOADER_BUFFER_SIZE cfg"
    by (simp add: reaches_completion_def)
  from stream_loop_total [OF lbs, of p "read_src source" "size_src source"
      "map (heap_garbage p) [0..<LOADER_BUFFER_SIZE cfg]" "ctx_src source" ESP_OK w9]
  obtain r b c w10 where
    loop: "stream_loop cfg p (read_src source) (size_src source)
             (map (heap_garbage p) [0..<LOADER_BUFFER_SIZE cfg]) (ctx_src source) ESP_OK w9 =
           Some (r, b, c, w10)"
    and mono: "n_transmit w9 \<le> n_transmit w10"
    by blast
  let ?w12 = "snd (write_update_block cfg p ?zeros 13
                     (emit [gpio_set_level CONFIG_FPGA_CS_GPIO 1] w10))"
  from run loop obtain ret' w13 where
    wait: "cdone_pin_wait cfg p True 100 ?w12 = Some (ret', w13)"
    and fin: "(ret, w') = cleanup_bus p ret'
                (emit [gpio_set_level CONFIG_FPGA_CS_GPIO 1,
                       gpio_matrix_out CONFIG_FPGA_CS_GPIO FSPICS0_OUT_IDX,
                       heap_caps_free]
                   (snd (write_update_block cfg p ?zeros 7 w13)))"
    by (auto simp: load_reached [OF reach] w9_def split: option.splits)
  from cdone_pin_wait_log [OF wait] have "n_transmit w13 = n_transmit ?w12" by auto
  then have n13: "n_transmit w13 = n_transmit w10 + length (transmissions (padding cfg 13))"
    by (simp add: wub_n_transmit padding_def)
  from fin have "n_transmit w' = n_transmit (snd (write_update_block cfg p ?zeros 7 w13))"
    by (simp add: cleanup_bus_eq)
  with n13 have n': "n_transmit w' =
      n_transmit w10 + length (transmissions (padding cfg 13 @ padding cfg 7))"
    by (simp add: wub_n_transmit padding_def)
  with agree have before: "\<forall>i<n_transmit w10. spi_device_transmit_result ?p' i =
      spi_device_transmit_result p i"
    by simp
  from mono have "n_transmit w0 < n_transmit w10" by (simp add: w9_def)
  with before reach have reach': "reaches_completion cfg ?p' w0"
    by (simp add: reaches_completion_def)
  have loop': "stream_loop cfg ?p' (read_src source) (size_src source)
             (map (heap_garbage p) [0..<LOADER_BUFFER_SIZE cfg]) (ctx_src source) ESP_OK w9 =
           Some (r, b, c, w10)"
    using lbs loop before by (rule stream_loop_agree)
  have wait': "cdone_pin_wait cfg ?p' True 100 ?w12 = Some (ret', w13)"
    using wait by (rule cdone_pin_wait_agree) simp_all
  have "fpga_loader_load cfg ?p' source w0 =
      Some (cleanup_bus ?p' ret'
              (emit [gpio_set_level CONFIG_FPGA_CS_GPIO 1,
                     gpio_matrix_out CONFIG_FPGA_CS_GPIO FSPICS0_OUT_IDX,
                     heap_caps_free]
                 (snd (write_update_block cfg ?p' ?zeros 7 w13))))"
    using loop' wait'
    by (simp add: load_reached [OF reach'] w9_def wub_snd_agree [of cfg ?p' _ _ _ p])
  also have "\<dots> = Some (ret, w')"
    using fin by (simp add: cleanup_bus_eq wub_snd_agree [of cfg ?p' _ _ _ p])
  finally show ?thesis .
qed

theorem padding_results_discarded_witness:
  "fpga_loader_load cfg16 healthy image20 boot = Some (ESP_OK, image20_end) \<and>
   fpga_loader_load cfg16 (healthy\<lparr>spi_device_transmit_result := pads_fail\<rparr>) image20 boot =
     Some (ESP_OK, image20_end) \<and>
   pads_fail 3 = ESP_FAIL \<and> pads_fail 4 = ESP_FAIL"
proof -
  have same: "\<forall>i. i + length (transmissions (padding cfg16 13 @ padding cfg16 7))
                    < n_transmit image20_end \<longrightarrow>
                pads_fail i = spi_device_transmit_result healthy i"
    by (simp add: image20_end_def pads_fail_def healthy_def padding_def
          LOADER_BUFFER_SIZE_def cfg16_def)
  have fails: "pads_fail 3 = ESP_FAIL" "pads_fail 4 = ESP_FAIL"
    by (simp_all add: pads_fail_def)
  from padding_results_discarded [OF healthy_reaches_completion image20_run same]
    image20_run fails
  show ?thesis by blast
qed

section \<open>The memory-range source\<close>

text \<open>
  C4, as the code has it. \<open>rom_read\<close> is all or nothing: when the request fits into what is
  left of the image it copies exactly the requested bytes from the cursor and advances
  the cursor by as many; when it does not fit, it returns 0, copies nothing and leaves the
  cursor where it was. (The sum of cursor and request is taken not to wrap around in
  \<open>size_t\<close>.)
\<close>

theorem rom_read_all_or_nothing:
  assumes "rom_pos rom + n < 2 ^ 32"
  shows "rom_read mem buffer n rom =
           (if rom_pos rom + n \<le> rom_size rom
            then (n,
                  map mem [rom_data rom + rom_pos rom ..< rom_data rom + rom_pos rom + n]
                    @ drop n buffer,
                  rom\<lparr>rom_pos := rom_pos rom + n\<rparr>)
            else (0, buffer, rom))"
  using assms by (simp add: rom_read_def)

theorem rom_read_all_or_nothing_witness:
  "rom_read (flash healthy) [9, 9, 9, 9, 9] 4 rom_at_4 =
     (4, [4, 5, 6, 7, 9], \<lparr>rom_data = 0, rom_size = 10, rom_pos = 8\<rparr>)
   \<and> rom_read (flash healthy) [9, 9, 9, 9, 9] 8 rom_at_4 = (0, [9, 9, 9, 9, 9], rom_at_4)"
proof -
  have "rom_pos rom_at_4 + 4 < (2::nat) ^ 32" "rom_pos rom_at_4 + 8 < (2::nat) ^ 32"
    by (simp_all add: rom_at_4_def)
  from rom_read_all_or_nothing [OF this(1), of "flash healthy" "[9, 9, 9, 9, 9]"]
       rom_read_all_or_nothing [OF this(2), of "flash healthy" "[9, 9, 9, 9, 9]"]
  show ?thesis
    by (simp add: rom_at_4_def healthy_def upt_rec)
qed

text \<open>
  The claim as it is written asks for \<open>min n remaining\<close> bytes. With 6 bytes left and 8
  requested the code delivers none.
\<close>

theorem rom_read_short_counterexample:
  "fst (rom_read (flash healthy) [9, 9, 9, 9, 9] 8 rom_at_4) = 0
   \<and> min 8 (rom_size rom_at_4 - rom_pos rom_at_4) = 6"
  by (simp add: rom_read_def rom_at_4_def)

section \<open>The entry point for an image in ROM\<close>

text \<open>
  C8, as the code has it, for the entry point that takes a range in ROM. A null
  descriptor, and a descriptor whose end is not beyond its start (a range of zero or
  negative length), make \<open>fpga_loader_load_from_rom\<close> return
  \<open>ESP_ERR_INVALID_ARG\<close> with the state untouched: no driver call is logged, no
  configuration step has run.
\<close>

theorem load_from_rom_invalid_input:
  assumes "fpga_bin = None \<or> (\<exists>bin. fpga_bin = Some bin \<and> bin_end bin \<le> bin_start bin)"
  shows "fpga_loader_load_from_rom cfg p fpga_bin w = Some (ESP_ERR_INVALID_ARG, w)"
  using assms by (auto simp: fpga_loader_load_from_rom_def)

theorem load_from_rom_invalid_input_witness:
  "fpga_loader_load_from_rom cfg16 healthy (Some empty_bin) boot = Some (ESP_ERR_INVALID_ARG, boot)
   \<and> fpga_loader_load_from_rom cfg16 healthy None boot = Some (ESP_ERR_INVALID_ARG, boot)"
proof -
  have "Some empty_bin = None \<or>
        (\<exists>bin. Some empty_bin = Some bin \<and> bin_end bin \<le> bin_start bin)"
    by (simp add: empty_bin_def)
  moreover have "(None :: fpga_bin_t option) = None \<or>
        (\<exists>bin. (None :: fpga_bin_t option) = Some bin \<and> bin_end bin \<le> bin_start bin)"
    by simp
  ultimately show ?thesis
    using load_from_rom_invalid_input [of "Some empty_bin" cfg16 healthy boot]
          load_from_rom_invalid_input [of None cfg16 healthy boot]
    by blast
qed

text \<open>
  The claim as it is written fails on the entry point that takes a path: it has no check
  of the length. An empty file is handed to \<open>fpga_loader_load\<close>, which runs the whole
  sequence with no chunk and here returns \<open>ESP_OK\<close>.
\<close>

theorem empty_file_counterexample:
  "stat_size with_empty_file ''/spiffs/top.bin'' = Some 0 \<and>
   fopen_bytes with_empty_file ''/spiffs/top.bin'' = Some [] \<and>
   fpga_loader_load_from_file cfg16 with_empty_file ''/spiffs/top.bin'' boot =
     Some (ESP_OK, empty_file_end) \<and>
   transmissions (new_calls boot empty_file_end) =
     [(8, [0]), (104, replicate 13 0), (56, replicate 7 0)]"
  using empty_file_run
  by (simp add: with_empty_file_def run_defs new_calls_def empty_file_end_def)

text \<open>
  A path that \<open>stat\<close> does not find gives \<open>ESP_ERR_NOT_FOUND\<close>, a file that cannot be opened
  \<open>ESP_FAIL\<close>, both before any driver call; any other file is handed to
  \<open>fpga_loader_load\<close>.
\<close>

lemma load_from_file_not_found:
  "stat_size p filename = None \<Longrightarrow>
     fpga_loader_load_from_file cfg p filename w = Some (ESP_ERR_NOT_FOUND, w)"
  by (simp add: fpga_loader_load_from_file_def)

lemma load_from_file_not_opened:
  "stat_size p filename = Some n \<Longrightarrow> fopen_bytes p filename = None \<Longrightarrow>
     fpga_loader_load_from_file cfg p filename w = Some (ESP_FAIL, w)"
  by (simp add: fpga_loader_load_from_file_def)

lemma load_from_file_opened:
  "stat_size p filename = Some n \<Longrightarrow> fopen_bytes p filename = Some fp \<Longrightarrow>
     fpga_loader_load_from_file cfg p filename w =
       fpga_loader_load cfg p \<lparr>size_src = n, ctx_src = fp, read_src = file_read\<rparr> w"
  by (simp add: fpga_loader_load_from_file_def)

end
